theory Spec2Isabelle
  imports Complex_Main
begin

section \<open>Tensor components\<close>

text \<open>
  The notebook computes on float tensors. A component is modelled as a real number or
  one of the three special values of IEEE arithmetic; the arithmetic on finite values is
  exact (the rounding, overflow and underflow of \<^verbatim>\<open>float32\<close> and the sign of zero are not
  modelled). The special values follow IEEE 754: a NaN operand gives NaN, every comparison
  with NaN is false, \<open>x / 0\<close> is an infinity for \<open>x \<noteq> 0\<close> and NaN for \<open>x = 0\<close>,
  \<open>0 * \<infinity>\<close> and \<open>\<infinity> - \<infinity>\<close> are NaN. Where a theorem below is about a selection or a
  replacement, it is stated on the values the functions compute (the operands of a
  comparison, of a test for NaN), not on the exact values of the formulas.
\<close>

datatype fl = Fin real | PInf | NInf | NaN

instantiation fl :: "{plus, minus, uminus, times, inverse, abs, ord}"
begin

fun uminus_fl :: "fl \<Rightarrow> fl" where
  "uminus_fl (Fin a) = Fin (- a)"
| "uminus_fl PInf = NInf"
| "uminus_fl NInf = PInf"
| "uminus_fl NaN = NaN"

fun plus_fl :: "fl \<Rightarrow> fl \<Rightarrow> fl" where
  "plus_fl (Fin a) (Fin b) = Fin (a + b)"
| "plus_fl NaN _ = NaN"
| "plus_fl _ NaN = NaN"
| "plus_fl PInf NInf = NaN"
| "plus_fl NInf PInf = NaN"
| "plus_fl PInf _ = PInf"
| "plus_fl _ PInf = PInf"
| "plus_fl NInf _ = NInf"
| "plus_fl _ NInf = NInf"

definition minus_fl :: "fl \<Rightarrow> fl \<Rightarrow> fl" where
  "minus_fl a b = a + (- b)"

fun times_fl :: "fl \<Rightarrow> fl \<Rightarrow> fl" where
  "times_fl (Fin a) (Fin b) = Fin (a * b)"
| "times_fl NaN _ = NaN"
| "times_fl _ NaN = NaN"
| "times_fl (Fin a) PInf = (if a = 0 then NaN else if 0 < a then PInf else NInf)"
| "times_fl (Fin a) NInf = (if a = 0 then NaN else if 0 < a then NInf else PInf)"
| "times_fl PInf (Fin b) = (if b = 0 then NaN else if 0 < b then PInf else NInf)"
| "times_fl NInf (Fin b) = (if b = 0 then NaN else if 0 < b then NInf else PInf)"
| "times_fl PInf PInf = PInf"
| "times_fl PInf NInf = NInf"
| "times_fl NInf PInf = NInf"
| "times_fl NInf NInf = PInf"

fun divide_fl :: "fl \<Rightarrow> fl \<Rightarrow> fl" where
  "divide_fl (Fin a) (Fin b) =
     (if b = 0 then (if a = 0 then NaN else if 0 < a then PInf else NInf) else Fin (a / b))"
| "divide_fl NaN _ = NaN"
| "divide_fl _ NaN = NaN"
| "divide_fl (Fin a) PInf = Fin 0"
| "divide_fl (Fin a) NInf = Fin 0"
| "divide_fl PInf (Fin b) = (if b < 0 then NInf else PInf)"
| "divide_fl NInf (Fin b) = (if b < 0 then PInf else NInf)"
| "divide_fl PInf PInf = NaN"
| "divide_fl PInf NInf = NaN"
| "divide_fl NInf PInf = NaN"
| "divide_fl NInf NInf = NaN"

definition inverse_fl :: "fl \<Rightarrow> fl" where
  "inverse_fl a = divide (Fin 1) a"

fun abs_fl :: "fl \<Rightarrow> fl" where
  "abs_fl (Fin a) = Fin \<bar>a\<bar>"
| "abs_fl PInf = PInf"
| "abs_fl NInf = PInf"
| "abs_fl NaN = NaN"

fun less_eq_fl :: "fl \<Rightarrow> fl \<Rightarrow> bool" where
  "less_eq_fl (Fin a) (Fin b) = (a \<le> b)"
| "less_eq_fl NaN _ = False"
| "less_eq_fl _ NaN = False"
| "less_eq_fl NInf _ = True"
| "less_eq_fl _ PInf = True"
| "less_eq_fl PInf _ = False"
| "less_eq_fl _ NInf = False"

fun less_fl :: "fl \<Rightarrow> fl \<Rightarrow> bool" where
  "less_fl (Fin a) (Fin b) = (a < b)"
| "less_fl NaN _ = False"
| "less_fl _ NaN = False"
| "less_fl PInf _ = False"
| "less_fl _ NInf = False"
| "less_fl NInf _ = True"
| "less_fl _ PInf = True"

instance ..

end

text \<open>\<^verbatim>\<open>x ** 2\<close> and \<^verbatim>\<open>x ** 0.5\<close>. The power \<open>0.5\<close> of a negative number is NaN, and of both
  infinities \<open>+\<infinity>\<close> (IEEE \<open>pow\<close>).\<close>

definition pow2 :: "fl \<Rightarrow> fl" where
  "pow2 x = x * x"

fun pow_half :: "fl \<Rightarrow> fl" where
  "pow_half (Fin a) = (if a < 0 then NaN else Fin (sqrt a))"
| "pow_half PInf = PInf"
| "pow_half NInf = PInf"
| "pow_half NaN = NaN"

text \<open>\<^verbatim>\<open>tf.math.is_nan\<close>, \<^verbatim>\<open>tf.minimum\<close>, \<^verbatim>\<open>tf.maximum\<close> (a NaN operand gives NaN) and
  \<^verbatim>\<open>tf.clip_by_value(t, lo, hi)\<close>, which is \<^verbatim>\<open>maximum(minimum(t, hi), lo)\<close>.
  \<^verbatim>\<open>tf.where(c, a, b)\<close> on one component is \<open>if c then a else b\<close>.\<close>

definition is_nan :: "fl \<Rightarrow> bool" where
  "is_nan x = (x = NaN)"

definition minimum :: "fl \<Rightarrow> fl \<Rightarrow> fl" where
  "minimum a b = (if is_nan a \<or> is_nan b then NaN else if a \<le> b then a else b)"

definition maximum :: "fl \<Rightarrow> fl \<Rightarrow> fl" where
  "maximum a b = (if is_nan a \<or> is_nan b then NaN else if a \<le> b then b else a)"

definition clip_by_value :: "fl \<Rightarrow> fl \<Rightarrow> fl \<Rightarrow> fl" where
  "clip_by_value t lo hi = maximum (minimum t hi) lo"

section \<open>Kinematics\<close>

text \<open>
  Every function of the notebook acts on its tensors component by component, so each is
  given here for one component, that is for one event of the batch. The argument
  \<open>sign\<close> is the Python integer \<open>+1\<close> or \<open>-1\<close>, \<open>save\<close> the Python flag.
\<close>

definition calc_vy :: "fl \<Rightarrow> fl \<Rightarrow> fl \<Rightarrow> fl \<Rightarrow> real \<Rightarrow> bool \<Rightarrow> fl" where
  "calc_vy vx lepx lepy mc sign save =
     (let s = pow_half (pow2 mc / Fin 2 * (pow2 lepx + pow2 lepy)
                          * (Fin 2 * lepx * vx + pow2 mc / Fin 2));
          s = (if save then (if Fin 0 < s then s else Fin 0) else s)
      in (lepx * lepy * vx + lepy * pow2 mc / Fin 2 + Fin sign * s) / pow2 lepx)"

definition shift :: "fl \<Rightarrow> fl \<Rightarrow> fl \<Rightarrow> fl \<Rightarrow> fl" where
  "shift vx vy metx mety = pow2 (metx - vx) + pow2 (mety - vy)"

definition get_k :: "fl \<Rightarrow> fl \<Rightarrow> fl \<Rightarrow> fl \<Rightarrow> fl \<Rightarrow> fl" where
  "get_k lepx lepy vx vy mc = pow2 mc / Fin 2 + lepx * vx + lepy * vy"

definition get_pt :: "fl \<Rightarrow> fl \<Rightarrow> fl" where
  "get_pt px py = pow_half (pow2 px + pow2 py)"

definition get_h :: "fl \<Rightarrow> fl \<Rightarrow> fl \<Rightarrow> fl \<Rightarrow> fl \<Rightarrow> fl" where
  "get_h lepx lepy metx mety mc =
     (let k = get_k lepx lepy metx mety mc;
          leppt = get_pt lepx lepy;
          metpt = get_pt metx mety
      in pow2 (leppt * metpt / k))"

section \<open>The real solution\<close>

text \<open>The two roots \<open>vzp\<close> and \<open>vzn\<close> of \<open>neutrino_reco_real\<close>, and the function.\<close>

definition vzp :: "fl \<Rightarrow> fl \<Rightarrow> fl \<Rightarrow> fl \<Rightarrow> fl \<Rightarrow> fl \<Rightarrow> fl \<Rightarrow> fl" where
  "vzp lepe lepx lepy lepz vx vy mc =
     (let k = get_k lepx lepy vx vy mc;
          leppt = get_pt lepx lepy;
          h = get_h lepx lepy vx vy mc
      in k / pow2 leppt * (lepz + lepe * pow_half (Fin 1 - h)))"

definition vzn :: "fl \<Rightarrow> fl \<Rightarrow> fl \<Rightarrow> fl \<Rightarrow> fl \<Rightarrow> fl \<Rightarrow> fl \<Rightarrow> fl" where
  "vzn lepe lepx lepy lepz vx vy mc =
     (let k = get_k lepx lepy vx vy mc;
          leppt = get_pt lepx lepy;
          h = get_h lepx lepy vx vy mc
      in k / pow2 leppt * (lepz - lepe * pow_half (Fin 1 - h)))"

definition neutrino_reco_real ::
  "fl \<Rightarrow> fl \<Rightarrow> fl \<Rightarrow> fl \<Rightarrow> fl \<Rightarrow> fl \<Rightarrow> fl \<Rightarrow> fl \<times> fl \<times> fl" where
  "neutrino_reco_real lepe lepx lepy lepz vx vy mc =
     (let p = vzp lepe lepx lepy lepz vx vy mc;
          n = vzn lepe lepx lepy lepz vx vy mc;
          vz = (if \<bar>p\<bar> \<le> \<bar>n\<bar> then p else n)
      in (vx, vy, vz))"

section \<open>The complex solution\<close>

text \<open>The boundary value \<open>constr_val\<close> (computed in \<open>vx_constrain\<close> and again in
  \<open>neutrino_reco_complex\<close>), the projection and the objective of the fit.\<close>

definition constr_val :: "fl \<Rightarrow> fl \<Rightarrow> fl" where
  "constr_val lepx mc = - (pow2 mc) / (Fin 4 * lepx)"

definition vx_constrain :: "fl \<Rightarrow> fl \<Rightarrow> fl \<Rightarrow> fl" where
  "vx_constrain vx lepx mc =
     (if Fin 0 \<le> lepx then clip_by_value vx (constr_val lepx mc) PInf
      else clip_by_value vx NInf (constr_val lepx mc))"

definition opt :: "fl \<Rightarrow> fl \<Rightarrow> fl \<Rightarrow> fl \<Rightarrow> fl \<Rightarrow> fl \<Rightarrow> real \<Rightarrow> fl" where
  "opt vx0 lepx lepy metx mety mc sign =
     (let vy = calc_vy vx0 lepx lepy mc sign False in shift vx0 vy metx mety)"

text \<open>
  The optimizer is an object of the Keras library. Its update rule is a parameter of the
  model: Keras optimizers update every component of a variable from the gradient of the
  objective in that component and from the slot values (moments, step count) kept for
  that component, so the rule is given per component. \<open>minimize s f v\<close> is one call of
  \<^verbatim>\<open>optimizer.minimize\<close> on a component with value \<open>v\<close>, slots \<open>s\<close> and objective \<open>f\<close>;
  \<open>zeros\<close> is the slot value after \<^verbatim>\<open>var.assign(tf.zeros_like(var))\<close>.
\<close>

record 's optimizer =
  zeros :: 's
  minimize :: "'s \<Rightarrow> (fl \<Rightarrow> fl) \<Rightarrow> fl \<Rightarrow> 's \<times> fl"

text \<open>One pass of the loop body of \<open>optimize1\<close> on a component: a minimize step, then
  the assignment of the projected value. A component is a pair of slots and value.\<close>

definition fit_step ::
  "'s optimizer \<Rightarrow> fl \<Rightarrow> fl \<Rightarrow> fl \<Rightarrow> fl \<Rightarrow> fl \<Rightarrow> real \<Rightarrow> 's \<times> fl \<Rightarrow> 's \<times> fl" where
  "fit_step U metx mety lepx lepy mc sign c =
     (let (s, v) = minimize U (fst c) (\<lambda>vx. opt vx lepx lepy metx mety mc sign) (snd c)
      in (s, vx_constrain v lepx mc))"

definition optimize1 ::
  "'s optimizer \<Rightarrow> 's \<times> fl \<Rightarrow> fl \<Rightarrow> fl \<Rightarrow> fl \<Rightarrow> fl \<Rightarrow> fl \<Rightarrow> real \<Rightarrow> 's \<times> fl" where
  "optimize1 U c metx mety lepx lepy mc sign =
     (fit_step U metx mety lepx lepy mc sign ^^ 100) c"

definition optimize2 ::
  "'s optimizer \<Rightarrow> 's \<times> fl \<Rightarrow> fl \<Rightarrow> fl \<Rightarrow> fl \<Rightarrow> fl \<Rightarrow> fl \<Rightarrow> real \<Rightarrow> 's \<times> fl" where
  "optimize2 U c metx mety lepx lepy mc sign =
     (fit_step U metx mety lepx lepy mc sign ^^ 100) c"

text \<open>\<open>neutrino_reco_complex\<close> after the two fits: \<open>catch_failed\<close> is the line
  \<^verbatim>\<open>vx1 = tf.where(tf.math.is_nan(vx1), constr_val, vx1)\<close>, \<open>take_smaller\<close> the rest of the
  function on the two caught values.\<close>

definition catch_failed :: "fl \<Rightarrow> fl \<Rightarrow> fl \<Rightarrow> fl" where
  "catch_failed vx lepx mc = (if is_nan vx then constr_val lepx mc else vx)"

definition take_smaller ::
  "fl \<Rightarrow> fl \<Rightarrow> fl \<Rightarrow> fl \<Rightarrow> fl \<Rightarrow> fl \<Rightarrow> fl \<Rightarrow> fl \<Rightarrow> fl \<times> fl \<times> fl" where
  "take_smaller lepx lepy lepz metx mety mc vx1 vx2 =
     (let vy1 = calc_vy vx1 lepx lepy mc 1 True;
          vy2 = calc_vy vx2 lepx lepy mc (- 1) True;
          diff1 = shift vx1 vy1 metx mety;
          diff2 = shift vx2 vy2 metx mety;
          vx = (if diff1 \<le> diff2 then vx1 else vx2);
          vy = (if diff1 \<le> diff2 then vy1 else vy2);
          k = get_k lepx lepy vx vy mc;
          leppt = get_pt lepx lepy;
          vz = k * lepz / pow2 leppt
      in (vx, vy, vz))"

text \<open>The function returns the two fitted components (the variables and slots it has
  changed) with the triple.\<close>

definition neutrino_reco_complex ::
  "'s optimizer \<Rightarrow> 's \<times> fl \<Rightarrow> 's \<times> fl \<Rightarrow> fl \<Rightarrow> fl \<Rightarrow> fl \<Rightarrow> fl \<Rightarrow> fl \<Rightarrow> fl \<Rightarrow> fl
     \<Rightarrow> (('s \<times> fl) \<times> ('s \<times> fl)) \<times> (fl \<times> fl \<times> fl)" where
  "neutrino_reco_complex U c1 c2 lepe lepx lepy lepz metx mety mc =
     (let d1 = optimize1 U c1 metx mety lepx lepy mc 1;
          d2 = optimize2 U c2 metx mety lepx lepy mc (- 1);
          vx1 = catch_failed (snd d1) lepx mc;
          vx2 = catch_failed (snd d2) lepx mc
      in ((d1, d2), take_smaller lepx lepy lepz metx mety mc vx1 vx2))"

section \<open>Interleaving the two solutions\<close>

text \<open>The first three lines of \<open>neutrino_reco\<close>: the lepton mass, with NaN replaced by
  zero, and the mass constraint corrected for it.\<close>

definition lep_mass :: "fl \<Rightarrow> fl \<Rightarrow> fl \<Rightarrow> fl \<Rightarrow> fl" where
  "lep_mass lepe lepx lepy lepz =
     (let lepm = pow_half (pow2 lepe - pow2 lepx - pow2 lepy - pow2 lepz)
      in if is_nan lepm then Fin 0 else lepm)"

definition mc_eff :: "fl \<Rightarrow> fl \<Rightarrow> fl \<Rightarrow> fl \<Rightarrow> fl \<Rightarrow> fl" where
  "mc_eff lepe lepx lepy lepz mc =
     pow_half (pow2 mc - pow2 (lep_mass lepe lepx lepy lepz))"

definition neutrino_reco ::
  "'s optimizer \<Rightarrow> 's \<times> fl \<Rightarrow> 's \<times> fl \<Rightarrow> fl \<Rightarrow> fl \<Rightarrow> fl \<Rightarrow> fl \<Rightarrow> fl \<Rightarrow> fl \<Rightarrow> fl
     \<Rightarrow> (('s \<times> fl) \<times> ('s \<times> fl)) \<times> (fl \<times> fl \<times> fl)" where
  "neutrino_reco U c1 c2 lepe lepx lepy lepz metx mety mc =
     (let mc = mc_eff lepe lepx lepy lepz mc;
          (vx_real, vy_real, vz_real) = neutrino_reco_real lepe lepx lepy lepz metx mety mc;
          (cs, vx_complex, vy_complex, vz_complex) =
             neutrino_reco_complex U c1 c2 lepe lepx lepy lepz metx mety mc;
          h = get_h lepx lepy metx mety mc;
          vx = (if h \<le> Fin 1 then vx_real else vx_complex);
          vy = (if h \<le> Fin 1 then vy_real else vy_complex);
          vz = (if h \<le> Fin 1 then vz_real else vz_complex)
      in (cs, vx, vy, vz))"

section \<open>The layer\<close>

text \<open>
  The layer holds the two weights \<open>vx1\<close> and \<open>vx2\<close>, each of \<open>batch_size\<close> components,
  every component paired with the slots its optimizer keeps for it, and the mass
  constraint. An input row is \<open>(lepe, lepx, lepy, lepz, metx, mety)\<close>.

  \<open>call\<close> is a \<^verbatim>\<open>tf.function\<close>: its Python body runs when the function is traced, and a
  call of the layer runs the operations of the trace. The body of \<open>reset_optimizer\<close> is a
  Python loop over \<^verbatim>\<open>optimizer.variables()\<close>: it runs at the trace and leaves in the traced
  call one assignment of zeros for every variable the optimizer has then. A Keras
  optimizer creates its variables (the step count and the slots) at its first
  \<^verbatim>\<open>minimize\<close>, which is inside the fits, so that an optimizer that has fitted nothing when
  \<open>call\<close> is traced has no variable, and the traced call resets none. The field \<open>resets\<close>
  tells whether the traced call holds the assignments to the variables of the two
  optimizers. In the notebook the optimizers are made by \<^verbatim>\<open>tf.keras.optimizers.get\<close> in
  \<^verbatim>\<open>__init__\<close> and \<open>call\<close> is traced when the layer is applied to the input of the model,
  before any fit: there \<open>resets\<close> is \<open>False\<close>. The slice assignments of \<open>metx\<close> are
  operations of the trace and run in every call.
\<close>

record 's layer =
  cells1 :: "('s \<times> fl) list"
  cells2 :: "('s \<times> fl) list"
  mass_constraint :: real
  resets :: bool

type_synonym event = "real \<times> real \<times> real \<times> real \<times> real \<times> real"

datatype error = ShapeError

text \<open>\<open>reset_optimizer\<close> in the traced call: zeros to every variable of both optimizers, if
  the trace holds these assignments.\<close>

definition reset_optimizer :: "'s optimizer \<Rightarrow> 's layer \<Rightarrow> 's layer" where
  "reset_optimizer U L =
     (if resets L
      then L\<lparr>cells1 := map (\<lambda>(s, v). (zeros U, v)) (cells1 L),
             cells2 := map (\<lambda>(s, v). (zeros U, v)) (cells2 L)\<rparr>
      else L)"

text \<open>\<^verbatim>\<open>w[:n].assign(metx)\<close>: the slice of a weight of fewer than \<open>n\<close> components has
  not the shape of \<open>metx\<close>, and the assignment fails.\<close>

definition assign_slice :: "('s \<times> fl) list \<Rightarrow> fl list \<Rightarrow> error + ('s \<times> fl) list" where
  "assign_slice w xs =
     (if length w < length xs then Inl ShapeError
      else Inr (map (\<lambda>((s, v), x). (s, x)) (zip (take (length xs) w) xs) @ drop (length xs) w))"

text \<open>A component of a weight beyond the batch: the objective does not depend on it,
  and the value is not projected.\<close>

definition idle_step :: "'s optimizer \<Rightarrow> 's \<times> fl \<Rightarrow> 's \<times> fl" where
  "idle_step U c = minimize U (fst c) (\<lambda>vx. Fin 0) (snd c)"

definition run_event ::
  "'s optimizer \<Rightarrow> real \<Rightarrow> event \<times> ('s \<times> fl) \<times> ('s \<times> fl)
     \<Rightarrow> (('s \<times> fl) \<times> ('s \<times> fl)) \<times> (fl \<times> fl \<times> fl)" where
  "run_event U mc r =
     (case r of ((lepe, lepx, lepy, lepz, metx, mety), c1, c2) \<Rightarrow>
        neutrino_reco U c1 c2 (Fin lepe) (Fin lepx) (Fin lepy) (Fin lepz) (Fin metx) (Fin mety)
          (Fin mc))"

definition call ::
  "'s optimizer \<Rightarrow> 's layer \<Rightarrow> event list
     \<Rightarrow> error + ('s layer \<times> fl list \<times> fl list \<times> fl list)" where
  "call U L inputs =
     (let L = reset_optimizer U L;
          n = length inputs;
          metx = map (\<lambda>(lepe, lepx, lepy, lepz, metx, mety). Fin metx) inputs
      in case assign_slice (cells1 L) metx of
           Inl e \<Rightarrow> Inl e
         | Inr w1 \<Rightarrow>
        (case assign_slice (cells2 L) metx of
           Inl e \<Rightarrow> Inl e
         | Inr w2 \<Rightarrow>
            (let rs = map (run_event U (mass_constraint L)) (zip inputs (zip w1 w2));
                 t1 = map (idle_step U ^^ 100) (drop n w1);
                 t2 = map (idle_step U ^^ 100) (drop n w2);
                 L = L\<lparr>cells1 := map (fst \<circ> fst) rs @ t1, cells2 := map (snd \<circ> fst) rs @ t2\<rparr>
             in Inr (L, map (fst \<circ> snd) rs, map (fst \<circ> snd \<circ> snd) rs,
                        map (snd \<circ> snd \<circ> snd) rs))))"

text \<open>Three update rules without state used to run the model on concrete events: one that
  never moves the iterate (a zero learning rate), one whose step overflows to \<open>+\<infinity>\<close>, and
  one whose step is NaN (a gradient that is not finite).\<close>

definition frozen :: "unit optimizer" where
  "frozen = \<lparr>zeros = (), minimize = (\<lambda>s f v. (s, v))\<rparr>"

definition blown :: "unit optimizer" where
  "blown = \<lparr>zeros = (), minimize = (\<lambda>s f v. (s, PInf))\<rparr>"

definition failing :: "unit optimizer" where
  "failing = \<lparr>zeros = (), minimize = (\<lambda>s f v. (s, NaN))\<rparr>"

text \<open>A rule with state: the slot of a component is a step count (Adam keeps one, its
  variable \<^verbatim>\<open>iter\<close>), and the step has length one at count zero and length zero at every
  later count (a learning rate that decays to zero).\<close>

definition decaying :: "nat optimizer" where
  "decaying = \<lparr>zeros = 0, minimize = (\<lambda>t f v. (Suc t, if t = 0 then v - Fin 1 else v))\<rparr>"

text \<open>The first components of a weight \<open>w\<close> after \<^verbatim>\<open>w[:n].assign(metx)\<close>, one for each event of
  the batch, and the results of \<open>neutrino_reco\<close> for the events of a batch on the components
  of two weights.\<close>

definition entered :: "('s \<times> fl) list \<Rightarrow> event list \<Rightarrow> ('s \<times> fl) list" where
  "entered w inputs =
     map (\<lambda>((s, v), (lepe, lepx, lepy, lepz, metx, mety)). (s, Fin metx)) (zip w inputs)"

definition outcomes ::
  "'s optimizer \<Rightarrow> real \<Rightarrow> ('s \<times> fl) list \<Rightarrow> ('s \<times> fl) list \<Rightarrow> event list
     \<Rightarrow> ((('s \<times> fl) \<times> ('s \<times> fl)) \<times> (fl \<times> fl \<times> fl)) list" where
  "outcomes U mc w1 w2 inputs =
     map (run_event U mc) (zip inputs (zip (entered w1 inputs) (entered w2 inputs)))"

text \<open>The component of a weight as the specification wants it at the start of a call,
  for the event of its row: the slots zero, the value \<open>metx\<close>.\<close>

definition seeded :: "'s optimizer \<Rightarrow> event \<Rightarrow> 's \<times> fl" where
  "seeded U r = (case r of (lepe, lepx, lepy, lepz, metx, mety) \<Rightarrow> (zeros U, Fin metx))"

text \<open>The results of \<open>neutrino_reco\<close> for the events of a batch, each run on components
  seeded for it.\<close>

definition results ::
  "'s optimizer \<Rightarrow> real \<Rightarrow> event list
     \<Rightarrow> ((('s \<times> fl) \<times> ('s \<times> fl)) \<times> (fl \<times> fl \<times> fl)) list" where
  "results U mc inputs = map (\<lambda>r. run_event U mc (r, seeded U r, seeded U r)) inputs"

section \<open>The half-line of the specification\<close>

text \<open>The specification's valid half-line for \<open>vx\<close>: \<open>[-mc\<^sup>2/(4 lepx), +\<infinity>)\<close> if \<open>lepx \<ge> 0\<close>,
  \<open>(-\<infinity>, -mc\<^sup>2/(4 lepx)]\<close> if \<open>lepx < 0\<close>, with the comparisons of the components.\<close>

definition in_half_line :: "fl \<Rightarrow> fl \<Rightarrow> fl \<Rightarrow> bool" where
  "in_half_line vx lepx mc =
     (if Fin 0 \<le> lepx then - (pow2 mc) / (Fin 4 * lepx) \<le> vx
      else vx \<le> - (pow2 mc) / (Fin 4 * lepx))"

section \<open>Arithmetic on components\<close>

lemma minus_Fin [simp]: "Fin a - Fin b = Fin (a - b)"
  by (simp add: minus_fl_def)

lemma pow2_Fin [simp]: "pow2 (Fin a) = Fin (a\<^sup>2)"
  by (simp add: pow2_def power2_eq_square)

lemma is_nan_simps [simp]: "is_nan NaN" "\<not> is_nan (Fin a)" "\<not> is_nan PInf" "\<not> is_nan NInf"
  by (simp_all add: is_nan_def)

lemma le_refl_fl: "\<not> is_nan a \<Longrightarrow> a \<le> (a::fl)"
  by (cases a) simp_all

lemma le_total_fl: "\<not> is_nan a \<Longrightarrow> \<not> is_nan b \<Longrightarrow> a \<le> b \<or> b \<le> (a::fl)"
  by (cases a; cases b) auto

lemma not_le_fl: "\<not> a \<le> (b::fl) \<longleftrightarrow> b < a \<or> is_nan a \<or> is_nan b"
  by (cases a; cases b) auto

lemma pow_half_nonneg: "Fin 0 \<le> pow_half r \<or> is_nan (pow_half r)"
  by (cases r) auto

section \<open>The lepton mass\<close>

text \<open>
  C9. The lepton mass that \<open>neutrino_reco\<close> derives is never NaN and never negative,
  whatever the components of the lepton are. For a lepton with real components it is
  zero when \<open>E\<^sup>2 < px\<^sup>2 + py\<^sup>2 + pz\<^sup>2\<close>, and the square root of the radicand
  otherwise.
\<close>

theorem lep_mass_clamped:
  "Fin 0 \<le> lep_mass lepe lepx lepy lepz \<and>
   (e\<^sup>2 < x\<^sup>2 + y\<^sup>2 + z\<^sup>2 \<longrightarrow> lep_mass (Fin e) (Fin x) (Fin y) (Fin z) = Fin 0) \<and>
   (x\<^sup>2 + y\<^sup>2 + z\<^sup>2 \<le> e\<^sup>2 \<longrightarrow>
      lep_mass (Fin e) (Fin x) (Fin y) (Fin z) = Fin (sqrt (e\<^sup>2 - x\<^sup>2 - y\<^sup>2 - z\<^sup>2)))"
proof (intro conjI impI)
  show "Fin 0 \<le> lep_mass lepe lepx lepy lepz"
    using pow_half_nonneg [of "pow2 lepe - pow2 lepx - pow2 lepy - pow2 lepz"]
    by (auto simp: lep_mass_def Let_def)
next
  assume "e\<^sup>2 < x\<^sup>2 + y\<^sup>2 + z\<^sup>2"
  then show "lep_mass (Fin e) (Fin x) (Fin y) (Fin z) = Fin 0"
    by (simp add: lep_mass_def)
next
  assume "x\<^sup>2 + y\<^sup>2 + z\<^sup>2 \<le> e\<^sup>2"
  then show "lep_mass (Fin e) (Fin x) (Fin y) (Fin z) = Fin (sqrt (e\<^sup>2 - x\<^sup>2 - y\<^sup>2 - z\<^sup>2))"
    by (simp add: lep_mass_def)
qed

theorem lep_mass_clamped_witness:
  "Fin 0 \<le> lep_mass (Fin 1) (Fin 2) (Fin 0) (Fin 0) \<and>
   lep_mass (Fin 1) (Fin 2) (Fin 0) (Fin 0) = Fin 0 \<and>
   lep_mass (Fin 5) (Fin 3) (Fin 0) (Fin 0) = Fin 4"
proof -
  have s: "sqrt 16 = 4" using real_sqrt_abs [of 4] by simp
  show ?thesis
    using lep_mass_clamped [of "Fin 1" "Fin 2" "Fin 0" "Fin 0" 1 2 0 0]
          lep_mass_clamped [of "Fin 1" "Fin 2" "Fin 0" "Fin 0" 5 3 0 0]
    by (simp add: s)
qed

section \<open>The y component on the constraint curve\<close>

lemma calc_vy_Fin:
  assumes "lx \<noteq> 0" and "0 \<le> mc\<^sup>2 / 2 * (lx\<^sup>2 + ly\<^sup>2) * (2 * lx * vx + mc\<^sup>2 / 2)"
  shows "calc_vy (Fin vx) (Fin lx) (Fin ly) (Fin mc) sg save =
         Fin ((lx * ly * vx + ly * mc\<^sup>2 / 2
               + sg * sqrt (mc\<^sup>2 / 2 * (lx\<^sup>2 + ly\<^sup>2) * (2 * lx * vx + mc\<^sup>2 / 2))) / lx\<^sup>2)"
proof -
  let ?R = "mc\<^sup>2 / 2 * (lx\<^sup>2 + ly\<^sup>2) * (2 * lx * vx + mc\<^sup>2 / 2)"
  have nn: "\<not> ?R < 0" using assms(2) by simp
  have s0: "\<not> 0 < sqrt ?R \<Longrightarrow> sqrt ?R = 0"
    using assms(2) by (simp add: not_less)
  show ?thesis
    unfolding calc_vy_def Let_def
    using assms(1) nn s0 by (cases save) (simp_all del: real_sqrt_gt_0_iff real_sqrt_lt_0_iff)
qed

lemma get_h_Fin:
  assumes "mc\<^sup>2 / 2 + lx * vx + ly * vy \<noteq> 0"
  shows "get_h (Fin lx) (Fin ly) (Fin vx) (Fin vy) (Fin mc) =
         Fin ((lx\<^sup>2 + ly\<^sup>2) * (vx\<^sup>2 + vy\<^sup>2) / (mc\<^sup>2 / 2 + lx * vx + ly * vy)\<^sup>2)"
  using assms
  by (simp add: get_h_def get_k_def get_pt_def Let_def not_sum_power2_lt_zero power_divide power_mult_distrib)

lemma curve_identity:
  fixes lx ly vx m s sg :: real
  assumes "s\<^sup>2 = m * (lx\<^sup>2 + ly\<^sup>2) * (2 * lx * vx + m)" and "sg\<^sup>2 = 1"
  shows "(lx\<^sup>2 * (m + lx * vx) + ly * (lx * ly * vx + ly * m + sg * s))\<^sup>2 =
         (lx\<^sup>2 + ly\<^sup>2) * (lx\<^sup>2 * lx\<^sup>2 * vx\<^sup>2 + (lx * ly * vx + ly * m + sg * s)\<^sup>2)"
  using assms by algebra

text \<open>
  Over the reals: for \<open>lepx \<noteq> 0\<close>, either sign and a trial \<open>vx\<close> with a non-negative
  radicand, the value of the formula of \<open>calc_vy\<close> without clamping lies on the constraint
  curve \<open>(mc\<^sup>2/2 + lepx vx + lepy vy)\<^sup>2 = (lepx\<^sup>2 + lepy\<^sup>2) (vx\<^sup>2 + vy\<^sup>2)\<close>, and the formula of
  the discriminant is 1 there unless \<open>mc = 0\<close> and \<open>vx = 0\<close>, where \<open>k = 0\<close> and \<open>get_h\<close>
  divides zero by zero. This is a fact about the two formulas in exact arithmetic. The
  notebook evaluates them in \<^verbatim>\<open>float32\<close>, where every product, quotient and square root is
  rounded: there the two sides of the equation agree up to rounding only, and the size of
  that error is outside this model.
\<close>

lemma calc_vy_on_curve_exact:
  assumes "lx \<noteq> 0" and "sg = 1 \<or> sg = - 1"
    and "0 \<le> mc\<^sup>2 / 2 * (lx\<^sup>2 + ly\<^sup>2) * (2 * lx * vx + mc\<^sup>2 / 2)"
  shows "\<exists>vy. calc_vy (Fin vx) (Fin lx) (Fin ly) (Fin mc) sg False = Fin vy \<and>
           (mc\<^sup>2 / 2 + lx * vx + ly * vy)\<^sup>2 = (lx\<^sup>2 + ly\<^sup>2) * (vx\<^sup>2 + vy\<^sup>2) \<and>
           get_k (Fin lx) (Fin ly) (Fin vx) (Fin vy) (Fin mc) = Fin (mc\<^sup>2 / 2 + lx * vx + ly * vy) \<and>
           (mc \<noteq> 0 \<or> vx \<noteq> 0 \<longrightarrow>
              get_h (Fin lx) (Fin ly) (Fin vx) (Fin vy) (Fin mc) = Fin 1) \<and>
           (mc = 0 \<and> vx = 0 \<longrightarrow>
              get_h (Fin lx) (Fin ly) (Fin vx) (Fin vy) (Fin mc) = NaN)"
proof -
  define m where "m = mc\<^sup>2 / 2"
  define P where "P = lx\<^sup>2 + ly\<^sup>2"
  define s where "s = sqrt (m * P * (2 * lx * vx + m))"
  define Y where "Y = lx * ly * vx + ly * m + sg * s"
  define vy where "vy = Y / lx\<^sup>2"
  define k where "k = m + lx * vx + ly * vy"
  have R: "0 \<le> m * P * (2 * lx * vx + m)"
    using assms(3) by (simp add: m_def P_def)
  have s2: "s\<^sup>2 = m * (lx\<^sup>2 + ly\<^sup>2) * (2 * lx * vx + m)"
    using R by (simp add: s_def P_def)
  have sg2: "sg\<^sup>2 = 1"
    using assms(2) by auto
  have Ppos: "0 < P"
    using assms(1) by (simp add: P_def sum_power2_gt_zero_iff)
  have lx2: "lx\<^sup>2 \<noteq> 0"
    using assms(1) by simp
  have vy_eq: "calc_vy (Fin vx) (Fin lx) (Fin ly) (Fin mc) sg False = Fin vy"
    using calc_vy_Fin [OF assms(1) assms(3), of sg False]
    by (simp add: vy_def Y_def s_def m_def P_def)
  have id: "(lx\<^sup>2 * (m + lx * vx) + ly * Y)\<^sup>2 = P * (lx\<^sup>2 * lx\<^sup>2 * vx\<^sup>2 + Y\<^sup>2)"
    unfolding Y_def P_def by (rule curve_identity [OF s2 sg2])
  have k_alt: "k = (lx\<^sup>2 * (m + lx * vx) + ly * Y) / lx\<^sup>2"
    using lx2 by (simp add: k_def vy_def field_simps)
  have "k\<^sup>2 = (lx\<^sup>2 * (m + lx * vx) + ly * Y)\<^sup>2 / (lx\<^sup>2 * lx\<^sup>2)"
    by (simp add: k_alt power_divide power2_eq_square)
  also have "\<dots> = P * (lx\<^sup>2 * lx\<^sup>2 * vx\<^sup>2 + Y\<^sup>2) / (lx\<^sup>2 * lx\<^sup>2)"
    by (simp add: id)
  also have "\<dots> = P * (vx\<^sup>2 + vy\<^sup>2)"
    using lx2 by (simp add: vy_def power_divide power2_eq_square field_simps)
  finally have curve: "k\<^sup>2 = P * (vx\<^sup>2 + vy\<^sup>2)" .
  have k_code: "get_k (Fin lx) (Fin ly) (Fin vx) (Fin vy) (Fin mc) = Fin k"
    by (simp add: get_k_def k_def m_def)
  have h1: "get_h (Fin lx) (Fin ly) (Fin vx) (Fin vy) (Fin mc) = Fin 1" if "mc \<noteq> 0 \<or> vx \<noteq> 0"
  proof -
    have "k \<noteq> 0"
    proof
      assume k0: "k = 0"
      with curve Ppos have "vx\<^sup>2 + vy\<^sup>2 = 0" by simp
      then have "vx = 0" and "vy = 0" by (simp_all add: sum_power2_eq_zero_iff)
      with k0 have "m = 0" by (simp add: k_def)
      then have "mc = 0" by (simp add: m_def)
      with \<open>vx = 0\<close> that show False by simp
    qed
    then have "get_h (Fin lx) (Fin ly) (Fin vx) (Fin vy) (Fin mc) = Fin (P * (vx\<^sup>2 + vy\<^sup>2) / k\<^sup>2)"
      using get_h_Fin [of mc lx vx ly vy] by (simp add: k_def m_def P_def)
    also have "\<dots> = Fin 1"
      using \<open>k \<noteq> 0\<close> by (simp add: curve [symmetric])
    finally show ?thesis .
  qed
  have h0: "get_h (Fin lx) (Fin ly) (Fin vx) (Fin vy) (Fin mc) = NaN" if "mc = 0 \<and> vx = 0"
  proof -
    have "vy = 0" using that by (simp add: vy_def Y_def s_def m_def)
    with that show ?thesis
      by (simp add: get_h_def get_k_def get_pt_def pow2_def not_sum_power2_lt_zero)
  qed
  show ?thesis
    using vy_eq curve k_code h1 h0 unfolding k_def m_def P_def by blast
qed

section \<open>The root of smaller absolute value\<close>

lemma get_pt_Fin [simp]: "get_pt (Fin a) (Fin b) = Fin (sqrt (a\<^sup>2 + b\<^sup>2))"
  by (simp add: get_pt_def not_sum_power2_lt_zero)

lemma get_k_Fin [simp]:
  "get_k (Fin lx) (Fin ly) (Fin vx) (Fin vy) (Fin mc) = Fin (mc\<^sup>2 / 2 + lx * vx + ly * vy)"
  by (simp add: get_k_def)






section \<open>NaN and the fit\<close>

lemma nan_absorbs [simp]:
  "x + NaN = NaN" "x * NaN = NaN" "x / NaN = NaN" "x - NaN = NaN" "NaN - x = NaN"
  "pow2 NaN = NaN"
  by (cases x; simp add: minus_fl_def pow2_def)+

lemma calc_vy_nan_mc [simp]: "calc_vy vx lepx lepy NaN sg save = NaN"
  by (simp add: calc_vy_def Let_def)

lemma shift_nan [simp]: "shift vx NaN metx mety = NaN"
  by (simp add: shift_def)

lemma constr_val_nan_mc [simp]: "constr_val lepx NaN = NaN"
  by (simp add: constr_val_def)

lemma vx_constrain_nan_mc [simp]: "vx_constrain v lepx NaN = NaN"
  by (simp add: vx_constrain_def clip_by_value_def maximum_def minimum_def)

lemma vx_constrain_nan [simp]: "vx_constrain NaN lepx mc = NaN"
  by (simp add: vx_constrain_def clip_by_value_def maximum_def minimum_def)

lemma snd_fit_step:
  "snd (fit_step U metx mety lepx lepy mc sg c) =
   vx_constrain (snd (minimize U (fst c) (\<lambda>vx. opt vx lepx lepy metx mety mc sg) (snd c))) lepx mc"
  by (simp add: fit_step_def split_beta)

lemma funpow_fixed: "f x = x \<Longrightarrow> (f ^^ n) x = x"
  by (induction n) simp_all

lemma funpow_settled: "f (f x) = f x \<Longrightarrow> 0 < n \<Longrightarrow> (f ^^ n) x = f x"
proof (induction n)
  case 0
  then show ?case by simp
next
  case (Suc n)
  then show ?case by (cases "n = 0") simp_all
qed

lemma fit_nan_mc:
  "0 < n \<Longrightarrow> snd ((fit_step U metx mety lepx lepy NaN sg ^^ n) c) = NaN"
  by (cases n) (simp_all add: snd_fit_step)

lemma optimize1_nan_mc [simp]: "snd (optimize1 U c metx mety lepx lepy NaN sg) = NaN"
  by (simp add: optimize1_def fit_nan_mc)

lemma optimize2_nan_mc [simp]: "snd (optimize2 U c metx mety lepx lepy NaN sg) = NaN"
  by (simp add: optimize2_def fit_nan_mc)

lemma take_smaller_nan_mc [simp]:
  "take_smaller lepx lepy lepz metx mety NaN vx1 vx2 = (vx2, NaN, NaN)"
  by (simp add: take_smaller_def get_k_def)

lemma neutrino_reco_complex_nan_mc [simp]:
  "snd (neutrino_reco_complex U c1 c2 lepe lepx lepy lepz metx mety NaN) = (NaN, NaN, NaN)"
  by (simp add: neutrino_reco_complex_def catch_failed_def Let_def)

lemma get_h_nan_mc [simp]: "get_h lepx lepy metx mety NaN = NaN"
  by (simp add: get_h_def get_k_def)

lemma snd_neutrino_reco_complex:
  "snd (neutrino_reco_complex U c1 c2 lepe lepx lepy lepz metx mety mc) =
   take_smaller lepx lepy lepz metx mety mc
     (catch_failed (snd (optimize1 U c1 metx mety lepx lepy mc 1)) lepx mc)
     (catch_failed (snd (optimize2 U c2 metx mety lepx lepy mc (- 1))) lepx mc)"
  by (simp add: neutrino_reco_complex_def Let_def)

lemma snd_neutrino_reco:
  "snd (neutrino_reco U c1 c2 lepe lepx lepy lepz metx mety mc) =
   (if get_h lepx lepy metx mety (mc_eff lepe lepx lepy lepz mc) \<le> Fin 1
    then neutrino_reco_real lepe lepx lepy lepz metx mety (mc_eff lepe lepx lepy lepz mc)
    else snd (neutrino_reco_complex U c1 c2 lepe lepx lepy lepz metx mety
                (mc_eff lepe lepx lepy lepz mc)))"
  by (simp add: neutrino_reco_def Let_def split_beta neutrino_reco_real_def)

lemma fst_neutrino_reco:
  "fst (neutrino_reco U c1 c2 lepe lepx lepy lepz metx mety mc) =
   (optimize1 U c1 metx mety lepx lepy (mc_eff lepe lepx lepy lepz mc) 1,
    optimize2 U c2 metx mety lepx lepy (mc_eff lepe lepx lepy lepz mc) (- 1))"
  by (simp add: neutrino_reco_def neutrino_reco_complex_def Let_def split_beta)

section \<open>The selection by the discriminant\<close>

text \<open>
  C1. With \<open>m\<close> the mass constraint corrected for the lepton mass and \<open>h\<close> the discriminant
  computed with it, the triple of \<open>neutrino_reco\<close> is the triple of \<open>neutrino_reco_real\<close> if
  \<open>h \<le> 1\<close> and the triple of \<open>neutrino_reco_complex\<close> in every other case; the other cases
  are \<open>h > 1\<close> and \<open>h\<close> NaN.
\<close>

theorem neutrino_reco_selects_by_h:
  assumes "m = mc_eff lepe lepx lepy lepz mc" and "h = get_h lepx lepy metx mety m"
  shows "(h \<le> Fin 1 \<longrightarrow>
            snd (neutrino_reco U c1 c2 lepe lepx lepy lepz metx mety mc)
              = neutrino_reco_real lepe lepx lepy lepz metx mety m) \<and>
         (\<not> h \<le> Fin 1 \<longrightarrow>
            snd (neutrino_reco U c1 c2 lepe lepx lepy lepz metx mety mc)
              = snd (neutrino_reco_complex U c1 c2 lepe lepx lepy lepz metx mety m)) \<and>
         (\<not> h \<le> Fin 1 \<longleftrightarrow> Fin 1 < h \<or> is_nan h)"
proof (intro conjI impI)
  assume "h \<le> Fin 1"
  then show "snd (neutrino_reco U c1 c2 lepe lepx lepy lepz metx mety mc)
               = neutrino_reco_real lepe lepx lepy lepz metx mety m"
    using assms by (simp add: snd_neutrino_reco)
next
  assume "\<not> h \<le> Fin 1"
  then show "snd (neutrino_reco U c1 c2 lepe lepx lepy lepz metx mety mc)
               = snd (neutrino_reco_complex U c1 c2 lepe lepx lepy lepz metx mety m)"
    using assms by (simp add: snd_neutrino_reco)
next
  show "\<not> h \<le> Fin 1 \<longleftrightarrow> Fin 1 < h \<or> is_nan h"
    by (simp add: not_le_fl)
qed

lemma frozen_simps [simp]: "minimize frozen s f v = (s, v)" "zeros frozen = ()"
  by (simp_all add: frozen_def)

lemma blown_simps [simp]: "minimize blown s f v = (s, PInf)" "zeros blown = ()"
  by (simp_all add: blown_def)

lemma failing_simps [simp]: "minimize failing s f v = (s, NaN)" "zeros failing = ()"
  by (simp_all add: failing_def)

lemma sqrt_4 [simp]: "sqrt 4 = 2"
  using real_sqrt_abs [of 2] by simp

lemma sqrt_25 [simp]: "sqrt 25 = 5"
  using real_sqrt_abs [of 5] by simp

lemma mc_eff_A: "mc_eff (Fin 5) (Fin 3) (Fin 4) (Fin 0) (Fin 2) = Fin 2"
  by (simp add: mc_eff_def lep_mass_def)

lemma get_h_A: "get_h (Fin 3) (Fin 4) (Fin 0) (Fin 0) (Fin 2) = Fin 0"
  by (simp add: get_h_def)

lemma real_A:
  "neutrino_reco_real (Fin 5) (Fin 3) (Fin 4) (Fin 0) (Fin 0) (Fin 0) (Fin 2)
     = (Fin 0, Fin 0, Fin (2 / 5))"
  by (simp add: neutrino_reco_real_def vzp_def vzn_def get_h_A)

lemma mc_eff_B: "mc_eff (Fin 1) (Fin 1) (Fin 0) (Fin 0) (Fin 2) = Fin 2"
  by (simp add: mc_eff_def lep_mass_def)

lemma get_h_B: "get_h (Fin 1) (Fin 0) (Fin (- 3)) (Fin 0) (Fin 2) = Fin 9"
  by (simp add: get_h_def)

lemma fit_B:
  "(fit_step frozen (Fin (- 3)) (Fin 0) (Fin 1) (Fin 0) (Fin 2) sg ^^ 100) ((), Fin (- 3))
     = ((), Fin (- 1))"
proof -
  have v: "vx_constrain (Fin (- 3)) (Fin 1) (Fin 2) = Fin (- 1)"
          "vx_constrain (Fin (- 1)) (Fin 1) (Fin 2) = Fin (- 1)"
    by (simp_all add: vx_constrain_def constr_val_def clip_by_value_def maximum_def minimum_def)
  let ?f = "fit_step frozen (Fin (- 3)) (Fin 0) (Fin 1) (Fin 0) (Fin 2) sg"
  have 1: "?f ((), Fin (- 3)) = ((), Fin (- 1))"
    by (simp add: fit_step_def v)
  have 2: "?f ((), Fin (- 1)) = ((), Fin (- 1))"
    by (simp add: fit_step_def v)
  have "(?f ^^ 100) ((), Fin (- 3)) = ?f ((), Fin (- 3))"
    by (rule funpow_settled) (simp_all add: 1 2)
  then show ?thesis by (simp add: 1)
qed

lemma complex_B:
  "snd (neutrino_reco_complex frozen ((), Fin (- 3)) ((), Fin (- 3))
          (Fin 1) (Fin 1) (Fin 0) (Fin 0) (Fin (- 3)) (Fin 0) (Fin 2))
     = (Fin (- 1), Fin 0, Fin 0)"
  by (simp add: snd_neutrino_reco_complex optimize1_def optimize2_def fit_B catch_failed_def
      take_smaller_def calc_vy_def shift_def Let_def)

theorem neutrino_reco_selects_by_h_witness:
  "snd (neutrino_reco frozen ((), Fin 0) ((), Fin 0) (Fin 5) (Fin 3) (Fin 4) (Fin 0) (Fin 0) (Fin 0) (Fin 2))
     = (Fin 0, Fin 0, Fin (2 / 5)) \<and>
   snd (neutrino_reco frozen ((), Fin (- 3)) ((), Fin (- 3)) (Fin 1) (Fin 1) (Fin 0) (Fin 0) (Fin (- 3)) (Fin 0) (Fin 2))
     = (Fin (- 1), Fin 0, Fin 0)"
  using neutrino_reco_selects_by_h [OF mc_eff_A [symmetric] get_h_A [symmetric],
          of frozen "((), Fin 0)" "((), Fin 0)"]
        neutrino_reco_selects_by_h [OF mc_eff_B [symmetric] get_h_B [symmetric],
          of frozen "((), Fin (- 3))" "((), Fin (- 3))"]
  by (simp add: real_A complex_B)

text \<open>An event whose lepton mass exceeds the mass constraint: the corrected constraint and
  the discriminant are NaN, so neither \<open>h \<le> 1\<close> nor \<open>h > 1\<close> holds; the triple is the one of
  \<open>neutrino_reco_complex\<close>, and it differs from the one of \<open>neutrino_reco_real\<close>.\<close>

theorem neutrino_reco_nan_h_counterexample:
  "mc_eff (Fin 2) (Fin 1) (Fin 0) (Fin 0) (Fin 1) = NaN \<and>
   get_h (Fin 1) (Fin 0) (Fin 1) (Fin 1) NaN = NaN \<and>
   \<not> NaN \<le> Fin 1 \<and> \<not> Fin 1 < NaN \<and>
   snd (neutrino_reco frozen ((), Fin 1) ((), Fin 1) (Fin 2) (Fin 1) (Fin 0) (Fin 0) (Fin 1) (Fin 1) (Fin 1))
     = snd (neutrino_reco_complex frozen ((), Fin 1) ((), Fin 1) (Fin 2) (Fin 1) (Fin 0) (Fin 0) (Fin 1) (Fin 1) NaN) \<and>
   snd (neutrino_reco frozen ((), Fin 1) ((), Fin 1) (Fin 2) (Fin 1) (Fin 0) (Fin 0) (Fin 1) (Fin 1) (Fin 1))
     = (NaN, NaN, NaN) \<and>
   neutrino_reco_real (Fin 2) (Fin 1) (Fin 0) (Fin 0) (Fin 1) (Fin 1) NaN = (Fin 1, Fin 1, NaN)"
proof -
  have m: "mc_eff (Fin 2) (Fin 1) (Fin 0) (Fin 0) (Fin 1) = NaN"
    by (simp add: mc_eff_def lep_mass_def)
  show ?thesis
    by (simp add: m snd_neutrino_reco neutrino_reco_real_def vzp_def vzn_def get_k_def)
qed

section \<open>The branch of smaller shift\<close>

lemma take_smaller_cases:
  assumes "vy1 = calc_vy vx1 lepx lepy mc 1 True" and "vy2 = calc_vy vx2 lepx lepy mc (- 1) True"
    and "take_smaller lepx lepy lepz metx mety mc vx1 vx2 = (vx, vy, vz)"
  shows "(shift vx1 vy1 metx mety \<le> shift vx2 vy2 metx mety \<longrightarrow> vx = vx1 \<and> vy = vy1) \<and>
         (\<not> shift vx1 vy1 metx mety \<le> shift vx2 vy2 metx mety \<longrightarrow> vx = vx2 \<and> vy = vy2) \<and>
         vz = get_k lepx lepy vx vy mc * lepz / pow2 (get_pt lepx lepy)"
  using assms by (auto simp: take_smaller_def Let_def)

text \<open>
  C4. \<open>neutrino_reco_complex\<close> keeps the branch of sign \<open>+1\<close> if \<open>diff1 \<le> diff2\<close> and the
  branch of sign \<open>-1\<close> in every other case, \<open>vx\<close> and \<open>vy\<close> from the same branch. If neither
  shift is NaN, the shift of the kept branch is at most the shift of each branch. The
  returned \<open>vz\<close> is \<open>k lepz / leppt\<^sup>2\<close> at the kept \<open>(vx, vy)\<close>.
\<close>

theorem complex_keeps_smaller_shift:
  assumes "vx1 = catch_failed (snd (optimize1 U c1 metx mety lepx lepy mc 1)) lepx mc"
    and "vx2 = catch_failed (snd (optimize2 U c2 metx mety lepx lepy mc (- 1))) lepx mc"
    and "vy1 = calc_vy vx1 lepx lepy mc 1 True"
    and "vy2 = calc_vy vx2 lepx lepy mc (- 1) True"
    and "diff1 = shift vx1 vy1 metx mety"
    and "diff2 = shift vx2 vy2 metx mety"
    and "snd (neutrino_reco_complex U c1 c2 lepe lepx lepy lepz metx mety mc) = (vx, vy, vz)"
  shows "(diff1 \<le> diff2 \<longrightarrow> vx = vx1 \<and> vy = vy1) \<and>
         (\<not> diff1 \<le> diff2 \<longrightarrow> vx = vx2 \<and> vy = vy2) \<and>
         (\<not> is_nan diff1 \<and> \<not> is_nan diff2 \<longrightarrow>
            shift vx vy metx mety \<le> diff1 \<and> shift vx vy metx mety \<le> diff2) \<and>
         vz = get_k lepx lepy vx vy mc * lepz / pow2 (get_pt lepx lepy)"
proof -
  have t: "take_smaller lepx lepy lepz metx mety mc vx1 vx2 = (vx, vy, vz)"
    using assms(1,2,7) by (simp add: snd_neutrino_reco_complex)
  note c = take_smaller_cases [OF assms(3,4) t, folded assms(5,6)]
  have "shift vx vy metx mety \<le> diff1 \<and> shift vx vy metx mety \<le> diff2"
    if "\<not> is_nan diff1 \<and> \<not> is_nan diff2"
  proof (cases "diff1 \<le> diff2")
    case True
    with c have "shift vx vy metx mety = diff1" by (simp add: assms(5))
    with True that show ?thesis by (simp add: le_refl_fl)
  next
    case False
    with c have "shift vx vy metx mety = diff2" by (simp add: assms(6))
    with False that show ?thesis using le_total_fl [of diff1 diff2] by (simp add: le_refl_fl)
  qed
  with c show ?thesis by blast
qed

lemma caught_B:
  "catch_failed (snd (optimize1 frozen ((), Fin (- 3)) (Fin (- 3)) (Fin 0) (Fin 1) (Fin 0) (Fin 2) 1))
     (Fin 1) (Fin 2) = Fin (- 1)"
  "catch_failed (snd (optimize2 frozen ((), Fin (- 3)) (Fin (- 3)) (Fin 0) (Fin 1) (Fin 0) (Fin 2) (- 1)))
     (Fin 1) (Fin 2) = Fin (- 1)"
  by (simp_all add: optimize1_def optimize2_def fit_B catch_failed_def)

lemma calc_vy_B:
  "calc_vy (Fin (- 1)) (Fin 1) (Fin 0) (Fin 2) 1 True = Fin 0"
  "calc_vy (Fin (- 1)) (Fin 1) (Fin 0) (Fin 2) (- 1) True = Fin 0"
  by (simp_all add: calc_vy_def)

lemma shift_B: "shift (Fin (- 1)) (Fin 0) (Fin (- 3)) (Fin 0) = Fin 4"
  by (simp add: shift_def)

theorem complex_keeps_smaller_shift_witness:
  "snd (neutrino_reco_complex frozen ((), Fin (- 3)) ((), Fin (- 3))
          (Fin 1) (Fin 1) (Fin 0) (Fin 0) (Fin (- 3)) (Fin 0) (Fin 2))
     = (Fin (- 1), Fin 0, Fin 0) \<and>
   shift (Fin (- 1)) (calc_vy (Fin (- 1)) (Fin 1) (Fin 0) (Fin 2) 1 True) (Fin (- 3)) (Fin 0) = Fin 4 \<and>
   shift (Fin (- 1)) (calc_vy (Fin (- 1)) (Fin 1) (Fin 0) (Fin 2) (- 1) True) (Fin (- 3)) (Fin 0) = Fin 4 \<and>
   shift (Fin (- 1)) (Fin 0) (Fin (- 3)) (Fin 0) \<le> Fin 4 \<and>
   Fin 0 = get_k (Fin 1) (Fin 0) (Fin (- 1)) (Fin 0) (Fin 2) * Fin 0 / pow2 (get_pt (Fin 1) (Fin 0))"
  using complex_keeps_smaller_shift [OF caught_B(1) [symmetric] caught_B(2) [symmetric]
          calc_vy_B(1) [symmetric] calc_vy_B(2) [symmetric] shift_B [symmetric] shift_B [symmetric]
          complex_B]
  by (simp add: complex_B calc_vy_B shift_B)

text \<open>A lepton with \<open>lepx = 0\<close> and \<open>h = 2500\<close>: \<open>calc_vy\<close> divides by \<open>lepx\<^sup>2\<close>, the shift of the
  branch of sign \<open>+1\<close> is \<open>+\<infinity>\<close> and the shift of the branch of sign \<open>-1\<close> is NaN. The
  comparison is false, the NaN branch is kept, and its shift is not at most the other.\<close>

theorem complex_keeps_nan_shift_counterexample:
  "get_h (Fin 0) (Fin 1) (Fin 100) (Fin 0) (Fin 2) = Fin 2500 \<and>
   snd (optimize1 frozen ((), Fin 100) (Fin 100) (Fin 0) (Fin 0) (Fin 1) (Fin 2) 1) = Fin 100 \<and>
   snd (optimize2 frozen ((), Fin 100) (Fin 100) (Fin 0) (Fin 0) (Fin 1) (Fin 2) (- 1)) = Fin 100 \<and>
   shift (Fin 100) (calc_vy (Fin 100) (Fin 0) (Fin 1) (Fin 2) 1 True) (Fin 100) (Fin 0) = PInf \<and>
   shift (Fin 100) (calc_vy (Fin 100) (Fin 0) (Fin 1) (Fin 2) (- 1) True) (Fin 100) (Fin 0) = NaN \<and>
   snd (neutrino_reco_complex frozen ((), Fin 100) ((), Fin 100)
          (Fin 1) (Fin 0) (Fin 1) (Fin 0) (Fin 100) (Fin 0) (Fin 2))
     = (Fin 100, NaN, NaN) \<and>
   \<not> NaN \<le> PInf"
proof -
  have v: "vx_constrain (Fin 100) (Fin 0) (Fin 2) = Fin 100"
    by (simp add: vx_constrain_def constr_val_def clip_by_value_def maximum_def minimum_def)
  have f: "(fit_step frozen (Fin 100) (Fin 0) (Fin 0) (Fin 1) (Fin 2) sg ^^ 100) ((), Fin 100)
             = ((), Fin 100)" for sg
    by (rule funpow_fixed) (simp add: fit_step_def v)
  have y: "calc_vy (Fin 100) (Fin 0) (Fin 1) (Fin 2) 1 True = PInf"
          "calc_vy (Fin 100) (Fin 0) (Fin 1) (Fin 2) (- 1) True = NaN"
    by (simp_all add: calc_vy_def)
  have d: "shift (Fin 100) PInf (Fin 100) (Fin 0) = PInf"
    by (simp add: shift_def minus_fl_def pow2_def)
  show ?thesis
    by (simp add: get_h_def snd_neutrino_reco_complex optimize1_def optimize2_def f
        catch_failed_def take_smaller_def y d get_k_def Let_def)
qed

section \<open>Ties\<close>

text \<open>
  C10. If the absolute values of the two roots compare equal (each is at most the other),
  \<open>neutrino_reco_real\<close> returns the root \<open>vzp\<close>. If the shifts of the two branches compare
  equal, \<open>neutrino_reco_complex\<close> returns \<open>vx\<close> and \<open>vy\<close> of the branch of sign \<open>+1\<close>.
\<close>

theorem ties_keep_positive:
  "(\<bar>vzp lepe lepx lepy lepz vx vy mc\<bar> \<le> \<bar>vzn lepe lepx lepy lepz vx vy mc\<bar> \<and>
    \<bar>vzn lepe lepx lepy lepz vx vy mc\<bar> \<le> \<bar>vzp lepe lepx lepy lepz vx vy mc\<bar> \<longrightarrow>
      neutrino_reco_real lepe lepx lepy lepz vx vy mc
        = (vx, vy, vzp lepe lepx lepy lepz vx vy mc)) \<and>
   (vx1 = catch_failed (snd (optimize1 U c1 metx mety lepx lepy mc 1)) lepx mc \<and>
    vx2 = catch_failed (snd (optimize2 U c2 metx mety lepx lepy mc (- 1))) lepx mc \<and>
    vy1 = calc_vy vx1 lepx lepy mc 1 True \<and>
    vy2 = calc_vy vx2 lepx lepy mc (- 1) True \<and>
    shift vx1 vy1 metx mety \<le> shift vx2 vy2 metx mety \<and>
    shift vx2 vy2 metx mety \<le> shift vx1 vy1 metx mety \<longrightarrow>
      fst (snd (neutrino_reco_complex U c1 c2 lepe lepx lepy lepz metx mety mc)) = vx1 \<and>
      fst (snd (snd (neutrino_reco_complex U c1 c2 lepe lepx lepy lepz metx mety mc))) = vy1)"
proof (intro conjI impI)
  assume "\<bar>vzp lepe lepx lepy lepz vx vy mc\<bar> \<le> \<bar>vzn lepe lepx lepy lepz vx vy mc\<bar> \<and>
          \<bar>vzn lepe lepx lepy lepz vx vy mc\<bar> \<le> \<bar>vzp lepe lepx lepy lepz vx vy mc\<bar>"
  then show "neutrino_reco_real lepe lepx lepy lepz vx vy mc
               = (vx, vy, vzp lepe lepx lepy lepz vx vy mc)"
    by (simp add: neutrino_reco_real_def)
next
  assume a: "vx1 = catch_failed (snd (optimize1 U c1 metx mety lepx lepy mc 1)) lepx mc \<and>
    vx2 = catch_failed (snd (optimize2 U c2 metx mety lepx lepy mc (- 1))) lepx mc \<and>
    vy1 = calc_vy vx1 lepx lepy mc 1 True \<and>
    vy2 = calc_vy vx2 lepx lepy mc (- 1) True \<and>
    shift vx1 vy1 metx mety \<le> shift vx2 vy2 metx mety \<and>
    shift vx2 vy2 metx mety \<le> shift vx1 vy1 metx mety"
  obtain x y z where t: "take_smaller lepx lepy lepz metx mety mc vx1 vx2 = (x, y, z)"
    by (cases "take_smaller lepx lepy lepz metx mety mc vx1 vx2") auto
  from a have y1: "vy1 = calc_vy vx1 lepx lepy mc 1 True"
    and y2: "vy2 = calc_vy vx2 lepx lepy mc (- 1) True"
    and le: "shift vx1 vy1 metx mety \<le> shift vx2 vy2 metx mety"
    by blast+
  from take_smaller_cases [OF y1 y2 t] le have "x = vx1" and "y = vy1"
    by simp_all
  moreover from a
  have "vx1 = catch_failed (snd (optimize1 U c1 metx mety lepx lepy mc 1)) lepx mc"
    and "vx2 = catch_failed (snd (optimize2 U c2 metx mety lepx lepy mc (- 1))) lepx mc"
    by blast+
  with t
  have "snd (neutrino_reco_complex U c1 c2 lepe lepx lepy lepz metx mety mc) = (x, y, z)"
    by (simp only: snd_neutrino_reco_complex)
  ultimately
  show "fst (snd (neutrino_reco_complex U c1 c2 lepe lepx lepy lepz metx mety mc)) = vx1"
    and "fst (snd (snd (neutrino_reco_complex U c1 c2 lepe lepx lepy lepz metx mety mc))) = vy1"
    by simp_all
qed

theorem ties_keep_positive_witness:
  "neutrino_reco_real (Fin 5) (Fin 3) (Fin 4) (Fin 0) (Fin 0) (Fin 0) (Fin 2)
     = (Fin 0, Fin 0, Fin (2 / 5)) \<and>
   vzp (Fin 5) (Fin 3) (Fin 4) (Fin 0) (Fin 0) (Fin 0) (Fin 2) = Fin (2 / 5) \<and>
   vzn (Fin 5) (Fin 3) (Fin 4) (Fin 0) (Fin 0) (Fin 0) (Fin 2) = Fin (- 2 / 5) \<and>
   fst (snd (neutrino_reco_complex frozen ((), Fin (- 3)) ((), Fin (- 3))
          (Fin 1) (Fin 1) (Fin 0) (Fin 0) (Fin (- 3)) (Fin 0) (Fin 2))) = Fin (- 1) \<and>
   fst (snd (snd (neutrino_reco_complex frozen ((), Fin (- 3)) ((), Fin (- 3))
          (Fin 1) (Fin 1) (Fin 0) (Fin 0) (Fin (- 3)) (Fin 0) (Fin 2)))) = Fin 0"
proof -
  have p: "vzp (Fin 5) (Fin 3) (Fin 4) (Fin 0) (Fin 0) (Fin 0) (Fin 2) = Fin (2 / 5)"
    and n: "vzn (Fin 5) (Fin 3) (Fin 4) (Fin 0) (Fin 0) (Fin 0) (Fin 2) = Fin (- 2 / 5)"
    by (simp_all add: vzp_def vzn_def get_h_A)
  have r: "neutrino_reco_real (Fin 5) (Fin 3) (Fin 4) (Fin 0) (Fin 0) (Fin 0) (Fin 2)
             = (Fin 0, Fin 0, Fin (2 / 5))"
    using ties_keep_positive [where lepe = "Fin 5" and lepx = "Fin 3"
            and lepy = "Fin 4" and lepz = "Fin 0" and vx = "Fin 0" and vy = "Fin 0"
            and mc = "Fin 2", THEN conjunct1]
    by (simp add: p n)
  have c: "fst (snd (neutrino_reco_complex frozen ((), Fin (- 3)) ((), Fin (- 3))
             (Fin 1) (Fin 1) (Fin 0) (Fin 0) (Fin (- 3)) (Fin 0) (Fin 2))) = Fin (- 1) \<and>
           fst (snd (snd (neutrino_reco_complex frozen ((), Fin (- 3)) ((), Fin (- 3))
             (Fin 1) (Fin 1) (Fin 0) (Fin 0) (Fin (- 3)) (Fin 0) (Fin 2)))) = Fin 0"
    by (rule ties_keep_positive [where ?vx2.0 = "Fin (- 1)" and ?vy2.0 = "Fin 0",
            THEN conjunct2, THEN mp])
       (simp add: caught_B calc_vy_B shift_B)
  from r c p n show ?thesis by simp
qed

section \<open>Failed fits\<close>

lemma constr_val_Fin:
  "lx \<noteq> 0 \<Longrightarrow> constr_val (Fin lx) (Fin m) = Fin (- (m\<^sup>2) / (4 * lx))"
  by (simp add: constr_val_def)

lemma calc_vy_at_boundary:
  assumes "lx \<noteq> 0"
  shows "calc_vy (Fin (- (m\<^sup>2) / (4 * lx))) (Fin lx) (Fin ly) (Fin m) sg True
           = Fin (ly * m\<^sup>2 / (4 * lx\<^sup>2))"
proof -
  have r: "m\<^sup>2 / 2 * (lx\<^sup>2 + ly\<^sup>2) * (2 * lx * (- (m\<^sup>2) / (4 * lx)) + m\<^sup>2 / 2) = 0"
    using assms by (simp add: field_simps)
  have "calc_vy (Fin (- (m\<^sup>2) / (4 * lx))) (Fin lx) (Fin ly) (Fin m) sg True
          = Fin ((lx * ly * (- (m\<^sup>2) / (4 * lx)) + ly * m\<^sup>2 / 2 + sg * sqrt 0) / lx\<^sup>2)"
    using calc_vy_Fin [OF assms, of m ly "- (m\<^sup>2) / (4 * lx)" sg True] r by simp
  also have "(lx * ly * (- (m\<^sup>2) / (4 * lx)) + ly * m\<^sup>2 / 2 + sg * sqrt 0) / lx\<^sup>2
               = ly * m\<^sup>2 / (4 * lx\<^sup>2)"
    using assms by (simp add: field_simps)
  finally show ?thesis .
qed

text \<open>
  C7. If the fit of a branch ends with a NaN iterate, \<open>neutrino_reco_complex\<close> computes its
  triple with the boundary value \<open>constr_val = -mc\<^sup>2 / (4 lepx)\<close> in its place; the function
  is total, so nothing is raised. Every other iterate, \<open>+\<infinity>\<close> and \<open>-\<infinity>\<close> included, is kept.
  For real \<open>lepx \<noteq> 0\<close> and \<open>mc\<close> the boundary value is a real number, and \<open>calc_vy\<close> with
  clamping is real there.
\<close>

theorem nan_iterate_replaced:
  "(is_nan (snd (optimize1 U c1 metx mety lepx lepy mc 1)) \<longrightarrow>
      snd (neutrino_reco_complex U c1 c2 lepe lepx lepy lepz metx mety mc)
        = take_smaller lepx lepy lepz metx mety mc (constr_val lepx mc)
            (catch_failed (snd (optimize2 U c2 metx mety lepx lepy mc (- 1))) lepx mc)) \<and>
   (is_nan (snd (optimize2 U c2 metx mety lepx lepy mc (- 1))) \<longrightarrow>
      snd (neutrino_reco_complex U c1 c2 lepe lepx lepy lepz metx mety mc)
        = take_smaller lepx lepy lepz metx mety mc
            (catch_failed (snd (optimize1 U c1 metx mety lepx lepy mc 1)) lepx mc)
            (constr_val lepx mc)) \<and>
   (\<not> is_nan v \<longrightarrow> catch_failed v lepx mc = v) \<and>
   (lx \<noteq> 0 \<longrightarrow>
      constr_val (Fin lx) (Fin m) = Fin (- (m\<^sup>2) / (4 * lx)) \<and>
      calc_vy (constr_val (Fin lx) (Fin m)) (Fin lx) (Fin ly) (Fin m) sg True
        = Fin (ly * m\<^sup>2 / (4 * lx\<^sup>2)))"
proof (intro conjI impI)
  assume "is_nan (snd (optimize1 U c1 metx mety lepx lepy mc 1))"
  then show "snd (neutrino_reco_complex U c1 c2 lepe lepx lepy lepz metx mety mc)
        = take_smaller lepx lepy lepz metx mety mc (constr_val lepx mc)
            (catch_failed (snd (optimize2 U c2 metx mety lepx lepy mc (- 1))) lepx mc)"
    by (simp add: snd_neutrino_reco_complex catch_failed_def)
next
  assume "is_nan (snd (optimize2 U c2 metx mety lepx lepy mc (- 1)))"
  then show "snd (neutrino_reco_complex U c1 c2 lepe lepx lepy lepz metx mety mc)
        = take_smaller lepx lepy lepz metx mety mc
            (catch_failed (snd (optimize1 U c1 metx mety lepx lepy mc 1)) lepx mc)
            (constr_val lepx mc)"
    by (simp add: snd_neutrino_reco_complex catch_failed_def)
next
  assume "\<not> is_nan v"
  then show "catch_failed v lepx mc = v"
    by (simp add: catch_failed_def)
next
  assume lx: "lx \<noteq> 0"
  then show "constr_val (Fin lx) (Fin m) = Fin (- (m\<^sup>2) / (4 * lx))"
    by (simp add: constr_val_Fin)
  show "calc_vy (constr_val (Fin lx) (Fin m)) (Fin lx) (Fin ly) (Fin m) sg True
          = Fin (ly * m\<^sup>2 / (4 * lx\<^sup>2))"
    using calc_vy_at_boundary [OF lx, of m ly sg] by (simp add: constr_val_Fin lx)
qed

lemma fit_failing:
  "snd ((fit_step failing metx mety lepx lepy mc sg ^^ 100) c) = NaN"
proof -
  have "snd ((fit_step failing metx mety lepx lepy mc sg ^^ Suc n) c) = NaN" for n
    by (simp add: snd_fit_step)
  from this [of 99] show ?thesis by simp
qed

lemma fit_blown:
  "snd ((fit_step blown metx mety (Fin 1) lepy (Fin 2) sg ^^ 100) c) = PInf"
proof -
  have v: "vx_constrain PInf (Fin 1) (Fin 2) = PInf"
    by (simp add: vx_constrain_def constr_val_def clip_by_value_def maximum_def minimum_def)
  have "snd ((fit_step blown metx mety (Fin 1) lepy (Fin 2) sg ^^ Suc n) c) = PInf" for n
    by (simp add: snd_fit_step v)
  from this [of 99] show ?thesis by simp
qed

theorem nan_iterate_replaced_witness:
  "is_nan (snd (optimize1 failing ((), Fin (- 3)) (Fin (- 3)) (Fin 0) (Fin 1) (Fin 0) (Fin 2) 1)) \<and>
   constr_val (Fin 1) (Fin 2) = Fin (- 1) \<and>
   snd (neutrino_reco_complex failing ((), Fin (- 3)) ((), Fin (- 3))
          (Fin 1) (Fin 1) (Fin 0) (Fin 0) (Fin (- 3)) (Fin 0) (Fin 2))
     = (Fin (- 1), Fin 0, Fin 0)"
proof -
  have n1: "is_nan (snd (optimize1 failing ((), Fin (- 3)) (Fin (- 3)) (Fin 0) (Fin 1) (Fin 0) (Fin 2) 1))"
    by (simp add: optimize1_def fit_failing)
  have n2: "catch_failed (snd (optimize2 failing ((), Fin (- 3)) (Fin (- 3)) (Fin 0) (Fin 1) (Fin 0) (Fin 2) (- 1)))
              (Fin 1) (Fin 2) = Fin (- 1)"
    by (simp add: optimize2_def fit_failing catch_failed_def constr_val_Fin)
  have c: "constr_val (Fin 1) (Fin 2) = Fin (- 1)"
    by (simp add: constr_val_Fin)
  have t: "take_smaller (Fin 1) (Fin 0) (Fin 0) (Fin (- 3)) (Fin 0) (Fin 2) (Fin (- 1)) (Fin (- 1))
             = (Fin (- 1), Fin 0, Fin 0)"
    by (simp add: take_smaller_def calc_vy_B shift_B Let_def)
  from nan_iterate_replaced [THEN conjunct1, THEN mp, OF n1, of "((), Fin (- 3))" "Fin 1" "Fin 0"]
  show ?thesis
    by (simp add: n1 n2 c t)
qed

text \<open>An update rule that overflows: the iterate \<open>+\<infinity>\<close> passes the projection for
  \<open>lepx \<ge> 0\<close>, it is not NaN and is not replaced; the triple is not the one computed from
  the boundary value \<open>-1\<close>.\<close>

theorem inf_iterate_kept_counterexample:
  "snd (optimize1 blown ((), Fin (- 1)) (Fin (- 1)) (Fin 1) (Fin 1) (Fin 1) (Fin 2) 1) = PInf \<and>
   snd (optimize2 blown ((), Fin (- 1)) (Fin (- 1)) (Fin 1) (Fin 1) (Fin 1) (Fin 2) (- 1)) = PInf \<and>
   constr_val (Fin 1) (Fin 2) = Fin (- 1) \<and>
   catch_failed PInf (Fin 1) (Fin 2) = PInf \<and>
   snd (neutrino_reco_complex blown ((), Fin (- 1)) ((), Fin (- 1))
          (Fin 2) (Fin 1) (Fin 1) (Fin 0) (Fin (- 1)) (Fin 1) (Fin 2))
     = (PInf, NaN, NaN) \<and>
   take_smaller (Fin 1) (Fin 1) (Fin 0) (Fin (- 1)) (Fin 1) (Fin 2) (Fin (- 1)) (Fin (- 1))
     = (Fin (- 1), Fin 1, Fin 0) \<and>
   snd (neutrino_reco_complex blown ((), Fin (- 1)) ((), Fin (- 1))
          (Fin 2) (Fin 1) (Fin 1) (Fin 0) (Fin (- 1)) (Fin 1) (Fin 2))
     \<noteq> take_smaller (Fin 1) (Fin 1) (Fin 0) (Fin (- 1)) (Fin 1) (Fin 2)
         (constr_val (Fin 1) (Fin 2)) (constr_val (Fin 1) (Fin 2))"
proof -
  have y: "calc_vy PInf (Fin 1) (Fin 1) (Fin 2) 1 True = PInf"
          "calc_vy PInf (Fin 1) (Fin 1) (Fin 2) (- 1) True = NaN"
          "calc_vy (Fin (- 1)) (Fin 1) (Fin 1) (Fin 2) 1 True = Fin 1"
          "calc_vy (Fin (- 1)) (Fin 1) (Fin 1) (Fin 2) (- 1) True = Fin 1"
    by (simp_all add: calc_vy_def)
  have d: "shift PInf PInf (Fin (- 1)) (Fin 1) = PInf"
          "shift (Fin (- 1)) (Fin 1) (Fin (- 1)) (Fin 1) = Fin 0"
    by (simp_all add: shift_def minus_fl_def pow2_def)
  show ?thesis
    by (simp add: snd_neutrino_reco_complex optimize1_def optimize2_def fit_blown
        catch_failed_def constr_val_Fin take_smaller_def y d get_k_def Let_def)
qed

section \<open>The projection\<close>

lemma clip_lower:
  "\<not> is_nan v \<Longrightarrow> \<not> is_nan c \<Longrightarrow> c \<le> clip_by_value v c PInf"
  by (cases v; cases c; simp add: clip_by_value_def maximum_def minimum_def)

lemma clip_upper:
  "\<not> is_nan v \<Longrightarrow> \<not> is_nan c \<Longrightarrow> clip_by_value v NInf c \<le> c"
  by (cases v; cases c; simp add: clip_by_value_def maximum_def minimum_def)

lemma clip_lower_id: "c \<le> v \<Longrightarrow> clip_by_value v c PInf = v"
  by (cases v; cases c; simp add: clip_by_value_def maximum_def minimum_def)

lemma clip_upper_id: "v \<le> c \<Longrightarrow> clip_by_value v NInf c = v"
  by (cases v; cases c; simp add: clip_by_value_def maximum_def minimum_def)

lemma in_half_line_constr_val:
  "in_half_line vx lepx mc =
     (if Fin 0 \<le> lepx then constr_val lepx mc \<le> vx else vx \<le> constr_val lepx mc)"
  by (simp add: in_half_line_def constr_val_def)

lemma vx_constrain_in_half_line:
  "\<not> is_nan v \<Longrightarrow> \<not> is_nan (constr_val lepx mc)
     \<Longrightarrow> in_half_line (vx_constrain v lepx mc) lepx mc"
  by (simp add: in_half_line_constr_val vx_constrain_def clip_lower clip_upper)

lemma vx_constrain_id: "in_half_line v lepx mc \<Longrightarrow> vx_constrain v lepx mc = v"
  by (simp add: in_half_line_constr_val vx_constrain_def clip_lower_id clip_upper_id
      split: if_splits)

lemma constr_val_real: "lx \<noteq> 0 \<or> m \<noteq> 0 \<Longrightarrow> \<not> is_nan (constr_val (Fin lx) (Fin m))"
  by (simp add: constr_val_def)

text \<open>
  C5. In every iteration of the fit the iterate after the projection step is
  \<open>vx_constrain\<close> of the value the optimizer step returned. It lies in the half-line
  whenever that value and the boundary value are not NaN, and it is NaN when that value is
  NaN. \<open>vx_constrain\<close> leaves every \<open>vx\<close> inside the half-line unchanged, and maps every real
  \<open>vx\<close> into the half-line for real \<open>lepx\<close> and \<open>mc\<close> that are not both zero.
\<close>

theorem projection_half_line:
  assumes "c' = (fit_step U metx mety lepx lepy mc sg ^^ n) c"
    and "v = snd (minimize U (fst c') (\<lambda>vx. opt vx lepx lepy metx mety mc sg) (snd c'))"
  shows "snd ((fit_step U metx mety lepx lepy mc sg ^^ Suc n) c) = vx_constrain v lepx mc \<and>
         (\<not> is_nan v \<and> \<not> is_nan (constr_val lepx mc) \<longrightarrow>
            in_half_line (vx_constrain v lepx mc) lepx mc) \<and>
         (is_nan v \<longrightarrow> vx_constrain v lepx mc = NaN) \<and>
         (in_half_line x lepx mc \<longrightarrow> vx_constrain x lepx mc = x) \<and>
         (lx \<noteq> 0 \<or> m \<noteq> 0 \<longrightarrow>
            in_half_line (vx_constrain (Fin r) (Fin lx) (Fin m)) (Fin lx) (Fin m))"
proof (intro conjI impI)
  show "snd ((fit_step U metx mety lepx lepy mc sg ^^ Suc n) c) = vx_constrain v lepx mc"
    using assms by (simp add: snd_fit_step)
next
  assume "\<not> is_nan v \<and> \<not> is_nan (constr_val lepx mc)"
  then show "in_half_line (vx_constrain v lepx mc) lepx mc"
    by (simp add: vx_constrain_in_half_line)
next
  assume "is_nan v"
  then show "vx_constrain v lepx mc = NaN"
    by (simp add: is_nan_def)
next
  assume "in_half_line x lepx mc"
  then show "vx_constrain x lepx mc = x"
    by (rule vx_constrain_id)
next
  assume "lx \<noteq> 0 \<or> m \<noteq> 0"
  then show "in_half_line (vx_constrain (Fin r) (Fin lx) (Fin m)) (Fin lx) (Fin m)"
    by (intro vx_constrain_in_half_line constr_val_real) simp_all
qed

theorem projection_half_line_witness:
  "snd ((fit_step frozen (Fin (- 3)) (Fin 0) (Fin 1) (Fin 0) (Fin 2) 1 ^^ Suc 0) ((), Fin (- 3)))
     = Fin (- 1) \<and>
   in_half_line (Fin (- 1)) (Fin 1) (Fin 2) \<and>
   vx_constrain (Fin (- 1)) (Fin 1) (Fin 2) = Fin (- 1) \<and>
   vx_constrain (Fin 5) (Fin (- 1)) (Fin 2) = Fin 1 \<and>
   in_half_line (Fin 1) (Fin (- 1)) (Fin 2)"
proof -
  have v: "vx_constrain (Fin (- 3)) (Fin 1) (Fin 2) = Fin (- 1)"
          "vx_constrain (Fin 5) (Fin (- 1)) (Fin 2) = Fin 1"
    by (simp_all add: vx_constrain_def constr_val_def clip_by_value_def maximum_def minimum_def)
  have i: "in_half_line (Fin (- 1)) (Fin 1) (Fin 2)"
    by (simp add: in_half_line_def)
  from projection_half_line [OF refl refl, where U = frozen and metx = "Fin (- 3)"
         and mety = "Fin 0" and lepx = "Fin 1" and lepy = "Fin 0" and mc = "Fin 2" and sg = 1
         and n = 0 and c = "((), Fin (- 3))" and x = "Fin (- 1)" and lx = "- 1" and m = 2
         and r = 5] i
  show ?thesis
    by (simp add: v)
qed

text \<open>A step of the optimizer that returns NaN: the projected iterate is NaN, in the loop
  and after it, and NaN is in no half-line. For \<open>lepx = 0\<close> and \<open>mc = 0\<close> the boundary value
  itself is NaN and the projection maps the real \<open>vx = 0\<close> to NaN.\<close>

theorem projection_nan_counterexample:
  "snd (fit_step failing (Fin 0) (Fin 0) (Fin 1) (Fin 0) (Fin 2) 1 ((), Fin 0)) = NaN \<and>
   snd (optimize1 failing ((), Fin 0) (Fin 0) (Fin 0) (Fin 1) (Fin 0) (Fin 2) 1) = NaN \<and>
   \<not> in_half_line NaN (Fin 1) (Fin 2) \<and>
   vx_constrain (Fin 0) (Fin 0) (Fin 0) = NaN \<and>
   \<not> in_half_line NaN (Fin 0) (Fin 0)"
  by (simp add: snd_fit_step optimize1_def fit_failing in_half_line_def vx_constrain_def
      constr_val_def clip_by_value_def maximum_def minimum_def)

section \<open>Calls of the layer\<close>

lemma reset_optimizer_simps [simp]:
  "mass_constraint (reset_optimizer U L) = mass_constraint L"
  "resets (reset_optimizer U L) = resets L"
  "length (cells1 (reset_optimizer U L)) = length (cells1 L)"
  "length (cells2 (reset_optimizer U L)) = length (cells2 L)"
  by (simp_all add: reset_optimizer_def)

lemma assign_slice_Inr:
  "length xs \<le> length w \<Longrightarrow>
   assign_slice w xs
     = Inr (map (\<lambda>((s, v), x). (s, x)) (zip (take (length xs) w) xs) @ drop (length xs) w)"
  by (simp add: assign_slice_def)

lemma entered_slice:
  "map (\<lambda>((s, v), x). (s, x))
     (zip (take (length inputs) w)
          (map (\<lambda>(lepe, lepx, lepy, lepz, metx, mety). Fin metx) inputs))
   = entered w inputs"
  by (intro nth_equalityI) (auto simp: entered_def split_beta)

lemma length_entered [simp]:
  "length inputs \<le> length w \<Longrightarrow> length (entered w inputs) = length inputs"
  by (simp add: entered_def)

lemma zip_entered:
  assumes "length inputs \<le> length w1" and "length inputs \<le> length w2"
  shows "zip inputs (zip (entered w1 inputs) (entered w2 inputs) @ t)
         = zip inputs (zip (entered w1 inputs) (entered w2 inputs))"
  using assms by (intro nth_equalityI) (auto simp: nth_append)

lemma length_outcomes [simp]:
  "length inputs \<le> length w1 \<Longrightarrow> length inputs \<le> length w2 \<Longrightarrow>
   length (outcomes U mc w1 w2 inputs) = length inputs"
  by (simp add: outcomes_def)

lemma outcomes_nth:
  assumes "j < length inputs" and "length inputs \<le> length w1" and "length inputs \<le> length w2"
  shows "outcomes U mc w1 w2 inputs ! j
         = run_event U mc (inputs ! j, entered w1 inputs ! j, entered w2 inputs ! j)"
  using assms by (simp add: outcomes_def)

lemma entered_update:
  assumes "j < length inputs" and "length inputs \<le> length w" and "j \<noteq> i"
  shows "entered w (inputs[i := r]) ! j = entered w inputs ! j"
  using assms by (simp add: entered_def)

lemma outcomes_update:
  assumes "j < length inputs" and "length inputs \<le> length w1" and "length inputs \<le> length w2"
    and "j \<noteq> i"
  shows "outcomes U mc w1 w2 (inputs[i := r]) ! j = outcomes U mc w1 w2 inputs ! j"
  using assms by (simp add: outcomes_nth entered_update)

lemma outcomes_seeded:
  assumes "length inputs \<le> length w1" and "length inputs \<le> length w2"
  shows "outcomes U mc (map (\<lambda>(s, v). (zeros U, v)) w1) (map (\<lambda>(s, v). (zeros U, v)) w2) inputs
         = results U mc inputs"
  using assms
  by (intro nth_equalityI) (auto simp: outcomes_def results_def entered_def seeded_def split_beta)

lemma call_Inr:
  assumes "length inputs \<le> length (cells1 L)" and "length inputs \<le> length (cells2 L)"
    and "L0 = reset_optimizer U L"
    and "rs = outcomes U (mass_constraint L) (cells1 L0) (cells2 L0) inputs"
  shows "call U L inputs =
     Inr (L0\<lparr>cells1 := map (fst \<circ> fst) rs
                 @ map (idle_step U ^^ 100) (drop (length inputs) (cells1 L0)),
             cells2 := map (snd \<circ> fst) rs
                 @ map (idle_step U ^^ 100) (drop (length inputs) (cells2 L0))\<rparr>,
          map (fst \<circ> snd) rs, map (fst \<circ> snd \<circ> snd) rs, map (snd \<circ> snd \<circ> snd) rs)"
  using assms(1,2) unfolding assms(3,4)
  by (simp add: call_def assign_slice_Inr entered_slice zip_entered outcomes_def Let_def)

lemma call_Inl:
  assumes "length (cells1 L) < length inputs \<or> length (cells2 L) < length inputs"
  shows "call U L inputs = Inl ShapeError"
  using assms
  by (auto simp: call_def assign_slice_def Let_def split: sum.splits)

lemma run_event_nan:
  assumes "is_nan (mc_eff (Fin e) (Fin x) (Fin y) (Fin z) (Fin mc))"
  shows "snd (run_event U mc ((e, x, y, z, mx, my), c1, c2)) = (NaN, NaN, NaN)"
  using assms by (simp add: run_event_def snd_neutrino_reco is_nan_def)

lemma sqrt_16 [simp]: "sqrt 16 = 4"
  using real_sqrt_abs [of 4] by simp

lemma sqrt_9 [simp]: "sqrt 9 = 3"
  using real_sqrt_abs [of 3] by simp

section \<open>Two calls in succession\<close>

text \<open>
  If the traced call holds the assignments of \<open>reset_optimizer\<close>, a call that returns leaves
  the layer in a state in which a call on the same batch returns the same outputs: the
  outputs are those of \<open>neutrino_reco\<close> run, for every event, on components with zero slots
  and the value \<open>metx\<close> of the event, and nothing of the state before the call enters them.
\<close>

lemma reset_cells:
  assumes "resets L"
  shows "cells1 (reset_optimizer U L) = map (\<lambda>(s, v). (zeros U, v)) (cells1 L)"
    and "cells2 (reset_optimizer U L) = map (\<lambda>(s, v). (zeros U, v)) (cells2 L)"
  using assms by (simp_all add: reset_optimizer_def)

lemma call_after_reset:
  assumes "resets L"
    and "length inputs \<le> length (cells1 L)" and "length inputs \<le> length (cells2 L)"
  shows "\<exists>L'. call U L inputs =
           Inr (L', map (fst \<circ> snd) (results U (mass_constraint L) inputs),
                    map (fst \<circ> snd \<circ> snd) (results U (mass_constraint L) inputs),
                    map (snd \<circ> snd \<circ> snd) (results U (mass_constraint L) inputs)) \<and>
           resets L' \<and> mass_constraint L' = mass_constraint L \<and>
           length inputs \<le> length (cells1 L') \<and> length inputs \<le> length (cells2 L')"
proof -
  have "outcomes U (mass_constraint L) (cells1 (reset_optimizer U L))
          (cells2 (reset_optimizer U L)) inputs = results U (mass_constraint L) inputs"
    using assms by (simp add: reset_cells outcomes_seeded)
  with call_Inr [OF assms(2,3) refl refl, of U] assms(1) show ?thesis
    by (simp add: results_def)
qed

lemma call_twice_after_reset:
  assumes "resets L" and "call U L inputs = Inr (L', out)"
  shows "(\<exists>L''. call U L' inputs = Inr (L'', out)) \<and>
         out = (map (fst \<circ> snd) (results U (mass_constraint L) inputs),
                map (fst \<circ> snd \<circ> snd) (results U (mass_constraint L) inputs),
                map (snd \<circ> snd \<circ> snd) (results U (mass_constraint L) inputs))"
proof -
  have len: "length inputs \<le> length (cells1 L)" "length inputs \<le> length (cells2 L)"
    using assms(2) call_Inl [of L inputs U] by (auto simp: not_less [symmetric])
  from call_after_reset [OF assms(1) len, of U] assms(2)
  have out: "out = (map (fst \<circ> snd) (results U (mass_constraint L) inputs),
                    map (fst \<circ> snd \<circ> snd) (results U (mass_constraint L) inputs),
                    map (snd \<circ> snd \<circ> snd) (results U (mass_constraint L) inputs))"
    and L': "resets L'" "mass_constraint L' = mass_constraint L"
      "length inputs \<le> length (cells1 L')" "length inputs \<le> length (cells2 L')"
    by auto
  from call_after_reset [OF L'(1,3,4), of U] have "\<exists>L''. call U L' inputs = Inr (L'', out)"
    by (auto simp: L'(2) out)
  with out show ?thesis by simp
qed

text \<open>The rule \<open>decaying\<close> on the event with lepton \<open>(1, 1, 0, 0)\<close> and MET \<open>(0, 3)\<close> under the
  mass constraint 2, for which \<open>h = 9/4\<close>: from the step count 0 the fit moves from
  \<open>metx = 0\<close> to the boundary \<open>-1\<close>, from a later step count it stays at \<open>metx\<close>.\<close>

lemma decaying_simps [simp]:
  "minimize decaying t f v = (Suc t, if t = 0 then v - Fin 1 else v)" "zeros decaying = 0"
  by (simp_all add: decaying_def)

lemma get_h_C: "get_h (Fin 1) (Fin 0) (Fin 0) (Fin 3) (Fin 2) = Fin (9 / 4)"
  by (simp add: get_h_def power_divide)

lemma vx_constrain_C:
  "vx_constrain (Fin (- 1)) (Fin 1) (Fin 2) = Fin (- 1)"
  "vx_constrain (Fin 0) (Fin 1) (Fin 2) = Fin 0"
  by (simp_all add: vx_constrain_def constr_val_def clip_by_value_def maximum_def minimum_def)

lemma fit_C_later:
  assumes "vx_constrain (Fin v) (Fin 1) (Fin 2) = Fin v"
  shows "(fit_step decaying (Fin 0) (Fin 3) (Fin 1) (Fin 0) (Fin 2) sg ^^ n) (Suc t, Fin v)
         = (Suc t + n, Fin v)"
  by (induction n) (simp_all add: fit_step_def assms)

lemma fit_C_fresh:
  "(fit_step decaying (Fin 0) (Fin 3) (Fin 1) (Fin 0) (Fin 2) sg ^^ 100) (0, Fin 0)
   = (100, Fin (- 1))"
proof -
  let ?f = "fit_step decaying (Fin 0) (Fin 3) (Fin 1) (Fin 0) (Fin 2) sg"
  have "(?f ^^ Suc 99) (0, Fin 0) = (?f ^^ 99) (?f (0, Fin 0))"
    by (simp only: funpow_Suc_right o_apply)
  also have "?f (0, Fin 0) = (Suc 0, Fin (- 1))"
    by (simp add: fit_step_def vx_constrain_C)
  also have "(?f ^^ 99) (Suc 0, Fin (- 1)) = (Suc 0 + 99, Fin (- 1))"
    by (rule fit_C_later) (rule vx_constrain_C)
  finally show ?thesis by simp
qed

lemma fit_C_stale:
  "(fit_step decaying (Fin 0) (Fin 3) (Fin 1) (Fin 0) (Fin 2) sg ^^ 100) (100, Fin 0)
   = (200, Fin 0)"
  using fit_C_later [OF vx_constrain_C(2), where sg = sg and n = 100 and t = 99] by simp

lemma calc_vy_C:
  "calc_vy (Fin 0) (Fin 1) (Fin 0) (Fin 2) 1 True = Fin 2"
  "calc_vy (Fin 0) (Fin 1) (Fin 0) (Fin 2) (- 1) True = Fin (- 2)"
  by (simp_all add: calc_vy_def)

lemma run_event_C_fresh:
  "run_event decaying 2 ((1, 1, 0, 0, 0, 3), (0, Fin 0), (0, Fin 0))
   = (((100, Fin (- 1)), (100, Fin (- 1))), (Fin (- 1), Fin 0, Fin 0))"
proof -
  have "snd (run_event decaying 2 ((1, 1, 0, 0, 0, 3), (0, Fin 0), (0, Fin 0)))
          = (Fin (- 1), Fin 0, Fin 0)"
    by (simp add: run_event_def snd_neutrino_reco mc_eff_B get_h_C snd_neutrino_reco_complex
        optimize1_def optimize2_def fit_C_fresh catch_failed_def take_smaller_def calc_vy_B
        shift_def Let_def)
  moreover have "fst (run_event decaying 2 ((1, 1, 0, 0, 0, 3), (0, Fin 0), (0, Fin 0)))
          = ((100, Fin (- 1)), (100, Fin (- 1)))"
    by (simp add: run_event_def fst_neutrino_reco mc_eff_B optimize1_def optimize2_def
        fit_C_fresh)
  ultimately show ?thesis by (simp add: prod_eq_iff)
qed

lemma run_event_C_stale:
  "run_event decaying 2 ((1, 1, 0, 0, 0, 3), (100, Fin 0), (100, Fin 0))
   = (((200, Fin 0), (200, Fin 0)), (Fin 0, Fin 2, Fin 0))"
proof -
  have "snd (run_event decaying 2 ((1, 1, 0, 0, 0, 3), (100, Fin 0), (100, Fin 0)))
          = (Fin 0, Fin 2, Fin 0)"
    by (simp add: run_event_def snd_neutrino_reco mc_eff_B get_h_C snd_neutrino_reco_complex
        optimize1_def optimize2_def fit_C_stale catch_failed_def take_smaller_def calc_vy_C
        shift_def Let_def)
  moreover have "fst (run_event decaying 2 ((1, 1, 0, 0, 0, 3), (100, Fin 0), (100, Fin 0)))
          = ((200, Fin 0), (200, Fin 0))"
    by (simp add: run_event_def fst_neutrino_reco mc_eff_B optimize1_def optimize2_def
        fit_C_stale)
  ultimately show ?thesis by (simp add: prod_eq_iff)
qed

text \<open>
  C6. The layer as the notebook makes it (\<open>call\<close> traced before an optimizer has fitted:
  \<open>resets\<close> is \<open>False\<close>), of one component, with the mass constraint 2 and the rule
  \<open>decaying\<close>, called twice on the batch of the one event with lepton \<open>(1, 1, 0, 0)\<close> and MET
  \<open>(0, 3)\<close>, for which \<open>h = 9/4\<close>. The first call assigns \<open>metx = 0\<close>, starts the fits at the
  step count 0, returns \<open>(-1, 0, 0)\<close> and leaves the step count 100. The second call assigns
  \<open>metx\<close> again but starts the fits at the step count 100, and returns \<open>(0, 2, 0)\<close>. With the
  assignments of \<open>reset_optimizer\<close> in the traced call (\<open>resets\<close> is \<open>True\<close>) the second call
  returns \<open>(-1, 0, 0)\<close>, as the first.
\<close>

theorem second_call_keeps_slots:
  "get_h (Fin 1) (Fin 0) (Fin 0) (Fin 3) (mc_eff (Fin 1) (Fin 1) (Fin 0) (Fin 0) (Fin 2))
     = Fin (9 / 4) \<and>
   call decaying \<lparr>cells1 = [(0, Fin 5)], cells2 = [(0, Fin 5)], mass_constraint = 2,
                    resets = False\<rparr> [(1, 1, 0, 0, 0, 3)]
     = Inr (\<lparr>cells1 = [(100, Fin (- 1))], cells2 = [(100, Fin (- 1))], mass_constraint = 2,
              resets = False\<rparr>, [Fin (- 1)], [Fin 0], [Fin 0]) \<and>
   call decaying \<lparr>cells1 = [(100, Fin (- 1))], cells2 = [(100, Fin (- 1))],
                    mass_constraint = 2, resets = False\<rparr> [(1, 1, 0, 0, 0, 3)]
     = Inr (\<lparr>cells1 = [(200, Fin 0)], cells2 = [(200, Fin 0)], mass_constraint = 2,
              resets = False\<rparr>, [Fin 0], [Fin 2], [Fin 0]) \<and>
   call decaying \<lparr>cells1 = [(100, Fin (- 1))], cells2 = [(100, Fin (- 1))],
                    mass_constraint = 2, resets = True\<rparr> [(1, 1, 0, 0, 0, 3)]
     = Inr (\<lparr>cells1 = [(100, Fin (- 1))], cells2 = [(100, Fin (- 1))], mass_constraint = 2,
              resets = True\<rparr>, [Fin (- 1)], [Fin 0], [Fin 0])"
  by (simp add: mc_eff_B get_h_C call_def reset_optimizer_def assign_slice_def Let_def
      run_event_C_fresh run_event_C_stale)

section \<open>A lepton heavier than the mass constraint\<close>

text \<open>
  C8. Let a batch that fits the layer hold an event for which the corrected mass
  constraint \<open>mc_eff\<close> is NaN, that is for which \<open>mc\<^sup>2 - lepm\<^sup>2\<close> as computed is negative.
  The call returns, with one triple for every event; the triple of that event is NaN in
  its three components; and the triple of every other event is what it is when any other
  row stands in the place of that event.
\<close>

theorem heavy_lepton_gives_nan_triple:
  assumes "i < length inputs" and "inputs ! i = (e, x, y, z, mx, my)"
    and "is_nan (mc_eff (Fin e) (Fin x) (Fin y) (Fin z) (Fin (mass_constraint L)))"
    and "length inputs \<le> length (cells1 L)" and "length inputs \<le> length (cells2 L)"
  shows "\<exists>L' vx vy vz. call U L inputs = Inr (L', vx, vy, vz) \<and>
           length vx = length inputs \<and> length vy = length inputs \<and>
           length vz = length inputs \<and>
           vx ! i = NaN \<and> vy ! i = NaN \<and> vz ! i = NaN \<and>
           (\<forall>r j. j < length inputs \<and> j \<noteq> i \<longrightarrow>
              (\<exists>L'' vx' vy' vz'. call U L (inputs[i := r]) = Inr (L'', vx', vy', vz') \<and>
                 vx' ! j = vx ! j \<and> vy' ! j = vy ! j \<and> vz' ! j = vz ! j))"
proof -
  let ?mc = "mass_constraint L"
  define w1 where "w1 = cells1 (reset_optimizer U L)"
  define w2 where "w2 = cells2 (reset_optimizer U L)"
  have len: "length inputs \<le> length w1" "length inputs \<le> length w2"
    using assms(4,5) by (simp_all add: w1_def w2_def)
  let ?rs = "outcomes U ?mc w1 w2 inputs"
  have nan: "snd (?rs ! i) = (NaN, NaN, NaN)"
    using assms(1,2) len run_event_nan [OF assms(3)] by (simp add: outcomes_nth)
  have len': "length (inputs[i := r]) \<le> length (cells1 L)"
             "length (inputs[i := r]) \<le> length (cells2 L)" for r
    using assms(4,5) by simp_all
  define vx where "vx = map (fst \<circ> snd) ?rs"
  define vy where "vy = map (fst \<circ> snd \<circ> snd) ?rs"
  define vz where "vz = map (snd \<circ> snd \<circ> snd) ?rs"
  from call_Inr [OF assms(4,5) refl refl, of U]
  have "\<exists>L'. call U L inputs = Inr (L', vx, vy, vz)"
    unfolding vx_def vy_def vz_def w1_def w2_def by blast
  then obtain L' where c: "call U L inputs = Inr (L', vx, vy, vz)" ..
  have l: "length vx = length inputs" "length vy = length inputs" "length vz = length inputs"
    using len by (simp_all add: vx_def vy_def vz_def)
  have n: "vx ! i = NaN" "vy ! i = NaN" "vz ! i = NaN"
    using assms(1) nan len by (simp_all add: vx_def vy_def vz_def)
  have o: "\<exists>L'' vx' vy' vz'. call U L (inputs[i := r]) = Inr (L'', vx', vy', vz') \<and>
             vx' ! j = vx ! j \<and> vy' ! j = vy ! j \<and> vz' ! j = vz ! j"
    if j: "j < length inputs \<and> j \<noteq> i" for r j
  proof -
    let ?rs' = "outcomes U ?mc w1 w2 (inputs[i := r])"
    from call_Inr [OF len' refl refl, where U = U]
    have "\<exists>L''. call U L (inputs[i := r])
        = Inr (L'', map (fst \<circ> snd) ?rs', map (fst \<circ> snd \<circ> snd) ?rs',
                    map (snd \<circ> snd \<circ> snd) ?rs')"
      unfolding w1_def w2_def by blast
    moreover have "?rs' ! j = ?rs ! j"
      using j len by (simp add: outcomes_update)
    then have "map (fst \<circ> snd) ?rs' ! j = vx ! j"
      and "map (fst \<circ> snd \<circ> snd) ?rs' ! j = vy ! j"
      and "map (snd \<circ> snd \<circ> snd) ?rs' ! j = vz ! j"
      using j len by (simp_all add: vx_def vy_def vz_def)
    ultimately show ?thesis by blast
  qed
  from c l n o show ?thesis by blast
qed

theorem heavy_lepton_gives_nan_triple_witness:
  "is_nan (mc_eff (Fin 5) (Fin 3) (Fin 0) (Fin 0) (Fin 2)) \<and>
   (\<exists>L' vx vy vz.
     call frozen \<lparr>cells1 = [((), Fin 7), ((), Fin 8)], cells2 = [((), Fin 9), ((), Fin 10)],
                   mass_constraint = 2, resets = False\<rparr>
          [(5, 3, 4, 0, 0, 0), (5, 3, 0, 0, 1, 1)]
       = Inr (L', vx, vy, vz) \<and>
     length vx = 2 \<and> vx ! 1 = NaN \<and> vy ! 1 = NaN \<and> vz ! 1 = NaN \<and>
     (\<exists>L'' vx' vy' vz'.
        call frozen \<lparr>cells1 = [((), Fin 7), ((), Fin 8)], cells2 = [((), Fin 9), ((), Fin 10)],
                      mass_constraint = 2, resets = False\<rparr>
             [(5, 3, 4, 0, 0, 0), (5, 3, 4, 0, 0, 0)]
          = Inr (L'', vx', vy', vz') \<and>
        vx' ! 0 = vx ! 0 \<and> vy' ! 0 = vy ! 0 \<and> vz' ! 0 = vz ! 0))"
proof -
  let ?L = "\<lparr>cells1 = [((), Fin 7), ((), Fin 8)], cells2 = [((), Fin 9), ((), Fin 10)],
              mass_constraint = 2, resets = False\<rparr> :: unit layer"
  let ?inputs = "[(5, 3, 4, 0, 0, 0), (5, 3, 0, 0, 1, 1)] :: event list"
  have m: "is_nan (mc_eff (Fin 5) (Fin 3) (Fin 0) (Fin 0) (Fin 2))"
    by (simp add: mc_eff_def lep_mass_def)
  then have m': "is_nan (mc_eff (Fin 5) (Fin 3) (Fin 0) (Fin 0) (Fin (mass_constraint ?L)))"
    by simp
  have "\<exists>L' vx vy vz. call frozen ?L ?inputs = Inr (L', vx, vy, vz) \<and>
           length vx = length ?inputs \<and> length vy = length ?inputs \<and>
           length vz = length ?inputs \<and>
           vx ! 1 = NaN \<and> vy ! 1 = NaN \<and> vz ! 1 = NaN \<and>
           (\<forall>r j. j < length ?inputs \<and> j \<noteq> 1 \<longrightarrow>
              (\<exists>L'' vx' vy' vz'. call frozen ?L (?inputs[1 := r]) = Inr (L'', vx', vy', vz') \<and>
                 vx' ! j = vx ! j \<and> vy' ! j = vy ! j \<and> vz' ! j = vz ! j))"
    by (rule heavy_lepton_gives_nan_triple [OF _ _ m']) simp_all
  then obtain L' vx vy vz where
    c: "call frozen ?L ?inputs = Inr (L', vx, vy, vz)"
    and l: "length vx = length ?inputs"
    and n: "vx ! 1 = NaN" "vy ! 1 = NaN" "vz ! 1 = NaN"
    and o: "\<And>r j. j < length ?inputs \<and> j \<noteq> 1 \<Longrightarrow>
              (\<exists>L'' vx' vy' vz'. call frozen ?L (?inputs[1 := r]) = Inr (L'', vx', vy', vz') \<and>
                 vx' ! j = vx ! j \<and> vy' ! j = vy ! j \<and> vz' ! j = vz ! j)"
    by blast
  from o [of 0 "(5, 3, 4, 0, 0, 0)"]
  have "\<exists>L'' vx' vy' vz'.
          call frozen ?L [(5, 3, 4, 0, 0, 0), (5, 3, 4, 0, 0, 0)] = Inr (L'', vx', vy', vz') \<and>
          vx' ! 0 = vx ! 0 \<and> vy' ! 0 = vy ! 0 \<and> vz' ! 0 = vz ! 0"
    by simp
  with c l n have "\<exists>L' vx vy vz.
     call frozen ?L ?inputs = Inr (L', vx, vy, vz) \<and>
     length vx = 2 \<and> vx ! 1 = NaN \<and> vy ! 1 = NaN \<and> vz ! 1 = NaN \<and>
     (\<exists>L'' vx' vy' vz'.
        call frozen ?L [(5, 3, 4, 0, 0, 0), (5, 3, 4, 0, 0, 0)] = Inr (L'', vx', vy', vz') \<and>
        vx' ! 0 = vx ! 0 \<and> vy' ! 0 = vy ! 0 \<and> vz' ! 0 = vz ! 0)"
    by (intro exI [of _ L'] exI [of _ vx] exI [of _ vy] exI [of _ vz]) simp
  with m show ?thesis by blast
qed

text \<open>Two batches that hold an event whose lepton mass, 4, exceeds the mass constraint.
  The first has two events and the layer one component: the slice assignment fails and
  the call returns no triple. The second is evaluated under the mass constraint \<open>-5\<close>: the
  code squares the constraint, \<open>mc_eff\<close> is 3, and the triple of the event has no NaN.\<close>

theorem heavy_lepton_counterexample:
  "lep_mass (Fin 5) (Fin 3) (Fin 0) (Fin 0) = Fin 4 \<and>
   call frozen \<lparr>cells1 = [((), Fin 7)], cells2 = [((), Fin 9)], mass_constraint = 2,
                  resets = False\<rparr> [(5, 3, 4, 0, 0, 0), (5, 3, 0, 0, 1, 1)]
     = Inl ShapeError \<and>
   mc_eff (Fin 5) (Fin 3) (Fin 0) (Fin 0) (Fin (- 5)) = Fin 3 \<and>
   call frozen \<lparr>cells1 = [((), Fin 7)], cells2 = [((), Fin 9)], mass_constraint = - 5,
                  resets = False\<rparr> [(5, 3, 0, 0, 0, 0)]
     = Inr (\<lparr>cells1 = [((), Fin 0)], cells2 = [((), Fin 0)], mass_constraint = - 5,
              resets = False\<rparr>, [Fin 0], [Fin 0], [Fin (5 / 2)])"
proof -
  have m: "lep_mass (Fin 5) (Fin 3) (Fin 0) (Fin 0) = Fin 4"
    by (simp add: lep_mass_def)
  have e: "mc_eff (Fin 5) (Fin 3) (Fin 0) (Fin 0) (Fin (- 5)) = Fin 3"
    by (simp add: mc_eff_def m)
  have h: "get_h (Fin 3) (Fin 0) (Fin 0) (Fin 0) (Fin 3) = Fin 0"
    by (simp add: get_h_def)
  have r: "neutrino_reco_real (Fin 5) (Fin 3) (Fin 0) (Fin 0) (Fin 0) (Fin 0) (Fin 3)
             = (Fin 0, Fin 0, Fin (5 / 2))"
    by (simp add: neutrino_reco_real_def vzp_def vzn_def h)
  have v: "vx_constrain (Fin 0) (Fin 3) (Fin 3) = Fin 0"
    by (simp add: vx_constrain_def constr_val_def clip_by_value_def maximum_def minimum_def)
  have f: "(fit_step frozen (Fin 0) (Fin 0) (Fin 3) (Fin 0) (Fin 3) sg ^^ 100) ((), Fin 0)
             = ((), Fin 0)" for sg
    by (rule funpow_fixed) (simp add: fit_step_def v)
  have "snd (run_event frozen (- 5) ((5, 3, 0, 0, 0, 0), ((), Fin 0), ((), Fin 0)))
          = (Fin 0, Fin 0, Fin (5 / 2))"
    by (simp add: run_event_def snd_neutrino_reco e h r)
  moreover have "fst (run_event frozen (- 5) ((5, 3, 0, 0, 0, 0), ((), Fin 0), ((), Fin 0)))
          = (((), Fin 0), ((), Fin 0))"
    by (simp add: run_event_def fst_neutrino_reco e optimize1_def optimize2_def f)
  ultimately have
    "run_event frozen (- 5) ((5, 3, 0, 0, 0, 0), ((), Fin 0), ((), Fin 0))
       = ((((), Fin 0), ((), Fin 0)), (Fin 0, Fin 0, Fin (5 / 2)))"
    by (simp add: prod_eq_iff)
  then show ?thesis
    by (simp add: m e call_def reset_optimizer_def assign_slice_def Let_def)
qed

end
